theory Spec2Isabelle
  imports Main
begin

section \<open>Common data\<close>

text \<open>
  Every service of the repository catches whatever is thrown below it, logs it, and
  throws a fresh \<^verbatim>\<open>Error\<close> whose message ends in the message of what it caught.
  The store's client does not throw: it hands back an error object with a code and a
  message, which the models throw.
\<close>

datatype error = Error string | PostgrestError string string

text \<open>\<^verbatim>\<open>error.message\<close> and \<^verbatim>\<open>error.code\<close>; an \<^verbatim>\<open>Error\<close> has no code.\<close>

fun error_message :: "error \<Rightarrow> string" where
  "error_message (Error m) = m"
| "error_message (PostgrestError c m) = m"

fun error_code :: "error \<Rightarrow> string option" where
  "error_code (Error m) = None"
| "error_code (PostgrestError c m) = Some c"

section \<open>Calendar service: the availability slot calculator\<close>

text \<open>
  Instants are milliseconds since the epoch, as moment.js holds them. A calendar day is
  the number of days since 1970-01-01 in the time zone of the request. The time zone is
  a function \<open>z\<close>: \<open>z d t\<close> is the instant that
  \<^verbatim>\<open>moment.tz(current.format('YYYY-MM-DD') + 'T' + t, timezone)\<close> denotes on day \<open>d\<close>,
  and \<open>None\<close> when moment.js cannot parse the text (an invalid moment: every comparison
  with it is false). Durations are whole minutes.
\<close>

type_synonym zone = "int \<Rightarrow> string \<Rightarrow> int option"

record busy =
  busy_start :: int
  busy_end :: int

record slot =
  slot_start :: int
  slot_end :: int

record hours =
  h_day :: string
  h_start :: string
  h_end :: string

text \<open>\<^verbatim>\<open>current.format('dddd').toLowerCase()\<close>: day 0 (1970-01-01) is a Thursday.\<close>

definition dayOfWeek :: "int \<Rightarrow> string" where
  "dayOfWeek d =
     [''thursday'', ''friday'', ''saturday'', ''sunday'', ''monday'', ''tuesday'', ''wednesday'']
       ! nat (d mod 7)"

text \<open>The predicate handed to \<^verbatim>\<open>busySlots.some\<close>, with its three disjuncts in source order.\<close>

definition conflicts :: "int \<Rightarrow> int \<Rightarrow> busy \<Rightarrow> bool" where
  "conflicts slotStart slotEnd b \<longleftrightarrow>
     (busy_start b \<le> slotStart \<and> slotStart < busy_end b) \<or>
     (busy_start b < slotEnd \<and> slotEnd \<le> busy_end b) \<or>
     (slotStart \<le> busy_start b \<and> busy_end b \<le> slotEnd)"

definition isAvailable :: "busy list \<Rightarrow> int \<Rightarrow> int \<Rightarrow> bool" where
  "isAvailable busySlots slotStart slotEnd \<longleftrightarrow> \<not> list_ex (conflicts slotStart slotEnd) busySlots"

text \<open>
  The inner loop
  \<^verbatim>\<open>while (slotStart.add(durationMinutes, 'minutes').isSameOrBefore(dayEnd))\<close>.
  \<^verbatim>\<open>add\<close> mutates \<open>slotStart\<close>: the test advances it first, and the body sees the advanced
  value. The loop need not end (a duration of zero or less never passes \<open>dayEnd\<close>), so the
  result is an option and \<open>None\<close> stands for a loop that runs forever.
\<close>

partial_function (option) slotLoop ::
  "busy list \<Rightarrow> int \<Rightarrow> int \<Rightarrow> int \<Rightarrow> slot list \<Rightarrow> slot list option" where
  [code]: "slotLoop busySlots durationMinutes dayEnd slotStart availableSlots =
     (if slotStart + durationMinutes * 60000 \<le> dayEnd
      then slotLoop busySlots durationMinutes dayEnd (slotStart + durationMinutes * 60000)
             (if isAvailable busySlots (slotStart + durationMinutes * 60000)
                   (slotStart + durationMinutes * 60000 + durationMinutes * 60000)
              then availableSlots @
                     [\<lparr>slot_start = slotStart + durationMinutes * 60000,
                       slot_end = slotStart + durationMinutes * 60000 + durationMinutes * 60000\<rparr>]
              else availableSlots)
      else Some availableSlots)"

text \<open>
  One pass of the outer loop's body: \<^verbatim>\<open>businessHours.find(h => h.day === dayOfWeek)\<close>,
  then the slots of that day. An invalid \<open>dayStart\<close> or \<open>dayEnd\<close> makes the loop test
  false at once.
\<close>

definition daySlots ::
  "zone \<Rightarrow> busy list \<Rightarrow> int \<Rightarrow> hours list \<Rightarrow> int \<Rightarrow> slot list \<Rightarrow> slot list option" where
  "daySlots z busySlots durationMinutes businessHours current availableSlots =
     (case find (\<lambda>h. h_day h = dayOfWeek current) businessHours of
        None \<Rightarrow> Some availableSlots
      | Some dayHours \<Rightarrow>
          (case (z current (h_start dayHours), z current (h_end dayHours)) of
             (Some dayStart, Some dayEnd) \<Rightarrow>
               slotLoop busySlots durationMinutes dayEnd dayStart availableSlots
           | _ \<Rightarrow> Some availableSlots))"

text \<open>The outer loop \<^verbatim>\<open>while (current.isSameOrBefore(end, 'day'))\<close>, one day at a time.\<close>

function dayLoop ::
  "zone \<Rightarrow> busy list \<Rightarrow> int \<Rightarrow> hours list \<Rightarrow> int \<Rightarrow> int \<Rightarrow> slot list \<Rightarrow> slot list option" where
  "dayLoop z busySlots durationMinutes businessHours endDay current availableSlots =
     (if current \<le> endDay
      then (case daySlots z busySlots durationMinutes businessHours current availableSlots of
              None \<Rightarrow> None
            | Some availableSlots' \<Rightarrow>
                dayLoop z busySlots durationMinutes businessHours endDay (current + 1) availableSlots')
      else Some availableSlots)"
  by pat_completeness auto
termination
  by (relation "measure (\<lambda>(z, busySlots, durationMinutes, businessHours, endDay, current, availableSlots).
        nat (endDay + 1 - current))") auto

text \<open>
  \<^verbatim>\<open>suggestTimeSlots\<close>. The refresh token only selects the calendar; \<open>freebusy\<close> is the
  provider's answer to the one free/busy query the function makes, an error when the
  query throws. The function's \<^verbatim>\<open>catch\<close> replaces any error by its own.
\<close>

definition suggestTimeSlots ::
  "zone \<Rightarrow> error + busy list \<Rightarrow> int \<Rightarrow> int \<Rightarrow> int \<Rightarrow> hours list \<Rightarrow> (error + slot list) option" where
  "suggestTimeSlots z freebusy startDate endDate durationMinutes businessHours =
     (case freebusy of
        Inl e \<Rightarrow> Some (Inl (Error ''Failed to suggest available time slots''))
      | Inr busySlots \<Rightarrow>
          map_option Inr (dayLoop z busySlots durationMinutes businessHours endDate startDate []))"

text \<open>
  The time zone of the scenarios: UTC, with times of day written \<^verbatim>\<open>HH:MM\<close>.
\<close>

definition digit :: "char \<Rightarrow> int option" where
  "digit c = (if (48::nat) \<le> of_char c \<and> of_char c \<le> (57::nat) then Some (int (of_char c) - 48) else None)"

fun utc :: zone where
  "utc d [h1, h2, sep, m1, m2] =
     (case (digit h1, digit h2, digit m1, digit m2) of
        (Some a, Some b, Some c, Some e) \<Rightarrow>
          (if sep = CHR '':'' \<and> 10 * a + b < 24 \<and> 10 * c + e < 60
           then Some (d * 86400000 + ((10 * a + b) * 60 + (10 * c + e)) * 60000)
           else None)
      | _ \<Rightarrow> None)"
| "utc d t = None"

section \<open>JavaScript values\<close>

text \<open>
  The values of the JSONB columns and of the objects handed between the services. A value
  that may be \<^verbatim>\<open>undefined\<close> has type \<open>json option\<close>. An object lists its properties in
  insertion order; as in JSON text, when a name is repeated the last value counts.
  Numbers are integers.
\<close>

datatype json = JNull | JBool bool | JNum int | JStr string | JArr "json list"
  | JObj "(string \<times> json) list"

text \<open>\<^verbatim>\<open>obj[k]\<close> for an object with the properties \<open>obj\<close>; \<open>None\<close> is \<^verbatim>\<open>undefined\<close>.\<close>

definition property :: "(string \<times> json) list \<Rightarrow> string \<Rightarrow> json option" where
  "property obj k = map_of (rev obj) k"

fun truthy :: "json option \<Rightarrow> bool" where
  "truthy None = False"
| "truthy (Some JNull) = False"
| "truthy (Some (JBool b)) = b"
| "truthy (Some (JNum n)) = (n \<noteq> 0)"
| "truthy (Some (JStr s)) = (s \<noteq> [])"
| "truthy (Some (JArr xs)) = True"
| "truthy (Some (JObj kvs)) = True"

fun decimal :: "nat \<Rightarrow> string" where
  "decimal n =
     (if n < 10 then [char_of (48 + n)] else decimal (n div 10) @ [char_of (48 + n mod 10)])"

text \<open>
  The own enumerable properties of a value, which \<^verbatim>\<open>{...v}\<close> copies: the properties of an
  object, the indexed characters of a string, the indexed elements of an array, and nothing
  for \<^verbatim>\<open>undefined\<close>, \<^verbatim>\<open>null\<close>, booleans and numbers.
\<close>

fun ownProperties :: "json option \<Rightarrow> (string \<times> json) list" where
  "ownProperties (Some (JObj kvs)) = kvs"
| "ownProperties (Some (JStr s)) = map (\<lambda>(i, c). (decimal i, JStr [c])) (enumerate 0 s)"
| "ownProperties (Some (JArr xs)) = map (\<lambda>(i, x). (decimal i, x)) (enumerate 0 xs)"
| "ownProperties v = []"

text \<open>\<^verbatim>\<open>obj[k] = v\<close>: an existing property keeps its place, a new one goes last.\<close>

fun assign :: "(string \<times> json) list \<Rightarrow> string \<Rightarrow> json \<Rightarrow> (string \<times> json) list" where
  "assign [] k v = [(k, v)]"
| "assign ((k', v') # ps) k v = (if k' = k then (k, v) # ps else (k', v') # assign ps k v)"

text \<open>\<^verbatim>\<open>{...obj, ...v}\<close> for an object under construction \<open>obj\<close>: the properties of \<open>v\<close> are assigned in order.\<close>

definition spread :: "(string \<times> json) list \<Rightarrow> json option \<Rightarrow> (string \<times> json) list" where
  "spread obj v = fold (\<lambda>(k, x) obj'. assign obj' k x) (ownProperties v) obj"

text \<open>\<^verbatim>\<open>v || {}\<close>.\<close>

definition orEmptyObject :: "json option \<Rightarrow> json option" where
  "orEmptyObject v = (if truthy v then v else Some (JObj []))"

section \<open>The store\<close>

text \<open>
  One record type per table of \<^verbatim>\<open>setup-database.sql\<close>, with the columns the modelled code
  reads or writes; a nullable text column is an option, a JSONB column is a \<open>json\<close>
  (\<open>JNull\<close> for SQL NULL), a timestamp is an instant. A table is the list of its rows.
\<close>

record lead =
  id :: string
  business_id :: string
  name :: "string option"
  phone :: "string option"
  email :: "string option"
  source :: "string option"
  contact_channel :: string
  status :: string
  additional_info :: json
  created_at :: int
  updated_at :: int

record conversation =
  id :: string
  lead_id :: string
  business_id :: string
  status :: string
  last_message_at :: "int option"
  created_at :: int
  updated_at :: int

record message =
  id :: string
  conversation_id :: string
  content :: string
  is_from_lead :: bool
  metadata :: json
  created_at :: int

record business =
  id :: string
  user_id :: string
  name :: string
  industry :: string
  services :: string

record assistant_config =
  id :: string
  business_id :: string
  role :: string
  tone :: string
  greeting_message :: "string option"
  required_info :: string

record calendar_integration =
  user_id :: string
  provider :: string
  refresh_token :: string

record meeting =
  id :: string
  lead_id :: string
  business_id :: string
  conversation_id :: "string option"
  title :: string
  description :: "string option"
  start_time :: string
  end_time :: string
  timezone :: string
  status :: string
  location :: "string option"
  google_event_id :: "string option"
  outlook_event_id :: "string option"
  additional_info :: json
  created_at :: int

section \<open>The outside world\<close>

text \<open>
  What the three providers are sent: an entry of the \<^verbatim>\<open>messages\<close> array of a chat
  completion, a message for Twilio, a call of the calendar API.
\<close>

record chat =
  role :: string
  content :: "json option"

record twilio_message =
  twilio_body :: string
  twilio_from :: string
  twilio_to :: string

record calendar_event =
  summary :: string
  description :: string
  start_dateTime :: string
  end_dateTime :: string
  timeZone :: string
  attendees :: "string list"
  location :: "string option"

datatype calendar_call = FreebusyQuery string string string | EventsInsert string calendar_event

text \<open>
  How the outside answers. A provider answers a request with a value or throws; the
  \<open>n\<close>-th call of \<^verbatim>\<open>uuidv4()\<close> returns \<open>uuid n\<close>; the two Twilio numbers are read from the
  process environment; \<open>isISO8601\<close> is the check of express-validator.
\<close>

record env =
  uuid :: "nat \<Rightarrow> string"
  chat_completions_create :: "chat list \<Rightarrow> error + string"
  twilio_messages_create :: "twilio_message \<Rightarrow> error + unit"
  freebusy_query :: "string \<Rightarrow> string \<Rightarrow> string \<Rightarrow> error + busy list"
  events_insert :: "string \<Rightarrow> calendar_event \<Rightarrow> error + string"
  TWILIO_WHATSAPP_NUMBER :: string
  TWILIO_PHONE_NUMBER :: string
  isISO8601 :: "string \<Rightarrow> bool"

text \<open>
  The world: the tables, the clock that \<^verbatim>\<open>new Date()\<close> reads, the number of identifiers
  drawn so far, and the requests each provider has received, oldest first.
\<close>

record world =
  leads :: "lead list"
  conversations :: "conversation list"
  messages :: "message list"
  businesses :: "business list"
  assistant_configs :: "assistant_config list"
  calendar_integrations :: "calendar_integration list"
  meetings :: "meeting list"
  clock :: int
  uuids :: nat
  openai_requests :: "chat list list"
  twilio_requests :: "twilio_message list"
  calendar_requests :: "calendar_call list"

text \<open>
  An asynchronous function runs on the world and leaves a changed world together with
  either the value it resolves to or the error it throws. Nothing is rolled back when
  an error is thrown.
\<close>

type_synonym 'a io = "world \<Rightarrow> (error + 'a) \<times> world"

definition pure :: "'a \<Rightarrow> 'a io" where
  "pure x = (\<lambda>w. (Inr x, w))"

definition throw :: "error \<Rightarrow> 'a io" where
  "throw e = (\<lambda>w. (Inl e, w))"

text \<open>\<^verbatim>\<open>const x = await m; ...\<close>\<close>

definition await :: "'a io \<Rightarrow> ('a \<Rightarrow> 'b io) \<Rightarrow> 'b io" where
  "await m f = (\<lambda>w. case m w of (Inl e, w') \<Rightarrow> (Inl e, w') | (Inr x, w') \<Rightarrow> f x w')"

text \<open>\<^verbatim>\<open>try { m } catch (error) { throw new Error(`prefix${error.message}`) }\<close>\<close>

definition rethrow :: "string \<Rightarrow> 'a io \<Rightarrow> 'a io" where
  "rethrow prefix m =
     (\<lambda>w. case m w of
            (Inl e, w') \<Rightarrow> (Inl (Error (prefix @ error_message e)), w')
          | (Inr x, w') \<Rightarrow> (Inr x, w'))"

text \<open>
  \<^verbatim>\<open>.single()\<close>: the one row of the result, and the error PGRST116 when the result has no
  row or several.
\<close>

definition single :: "'a list \<Rightarrow> error + 'a" where
  "single rows =
     (case rows of
        [r] \<Rightarrow> Inr r
      | _ \<Rightarrow> Inl (PostgrestError ''PGRST116''
                ''JSON object requested, multiple (or no) rows returned''))"

text \<open>The pattern \<^verbatim>\<open>if (error && error.code !== 'PGRST116') throw error; return data;\<close> after \<^verbatim>\<open>.single()\<close>.\<close>

definition singleOrNull :: "'a list \<Rightarrow> error + 'a option" where
  "singleOrNull rows =
     (case single rows of
        Inl e \<Rightarrow> (if error_code e \<noteq> Some ''PGRST116'' then Inl e else Inr None)
      | Inr r \<Rightarrow> Inr (Some r))"

text \<open>\<^verbatim>\<open>try { m } catch (error) { throw new Error(text) }\<close>\<close>

definition rethrowAs :: "string \<Rightarrow> 'a io \<Rightarrow> 'a io" where
  "rethrowAs text m =
     (\<lambda>w. case m w of (Inl e, w') \<Rightarrow> (Inl (Error text), w') | (Inr x, w') \<Rightarrow> (Inr x, w'))"

text \<open>\<^verbatim>\<open>try { m } catch (error) { console.error(...) }\<close>: the error is logged and dropped.\<close>

definition swallow :: "'a io \<Rightarrow> unit io" where
  "swallow m = (\<lambda>w. case m w of (r, w') \<Rightarrow> (Inr (), w'))"

definition uuidv4 :: "env \<Rightarrow> string io" where
  "uuidv4 env = (\<lambda>w. (Inr (uuid env (uuids w)), w\<lparr>uuids := Suc (uuids w)\<rparr>))"

section \<open>Strings\<close>

text \<open>
  A character is a code unit below 256 (Latin-1). \<^verbatim>\<open>toLowerCase\<close>, the white space of
  \<^verbatim>\<open>trim\<close> and of \<^verbatim>\<open>\s\<close>, \<^verbatim>\<open>includes\<close> and \<^verbatim>\<open>split\<close> on that alphabet.
\<close>

definition lowerChar :: "char \<Rightarrow> char" where
  "lowerChar c =
     (let n = of_char c :: nat
      in if (65 \<le> n \<and> n \<le> 90) \<or> (192 \<le> n \<and> n \<le> 222 \<and> n \<noteq> 215) then char_of (n + 32) else c)"

definition toLowerCase :: "string \<Rightarrow> string" where
  "toLowerCase s = map lowerChar s"

definition isSpace :: "char \<Rightarrow> bool" where
  "isSpace c \<longleftrightarrow> (of_char c :: nat) \<in> {9, 10, 11, 12, 13, 32, 160}"

definition isDigit :: "char \<Rightarrow> bool" where
  "isDigit c \<longleftrightarrow> (48::nat) \<le> of_char c \<and> of_char c \<le> (57::nat)"

definition trim :: "string \<Rightarrow> string" where
  "trim s = rev (dropWhile isSpace (rev (dropWhile isSpace s)))"

definition startsWith :: "string \<Rightarrow> string \<Rightarrow> bool" where
  "startsWith s p \<longleftrightarrow> take (length p) s = p"

fun includesJS :: "string \<Rightarrow> string \<Rightarrow> bool" where
  "includesJS [] p = (p = [])"
| "includesJS (c # cs) p = (startsWith (c # cs) p \<or> includesJS cs p)"

fun split :: "char \<Rightarrow> string \<Rightarrow> string list" where
  "split sep [] = [[]]"
| "split sep (c # cs) =
     (if c = sep then [] # split sep cs
      else (case split sep cs of [] \<Rightarrow> [[c]] | x # xs \<Rightarrow> (c # x) # xs))"

section \<open>Lead model\<close>

definition getLeadById :: "string \<Rightarrow> lead io" where
  "getLeadById leadId =
     rethrow ''Failed to fetch lead: ''
       (\<lambda>w. (single (filter (\<lambda>l. lead.id l = leadId) (leads w)), w))"

text \<open>\<^verbatim>\<open>lead.additional_info?.qualification_data\<close>: only an object can have the property.\<close>

fun qualification_data :: "json \<Rightarrow> json option" where
  "qualification_data (JObj kvs) = property kvs ''qualification_data''"
| "qualification_data v = None"

text \<open>The object literal \<open>updatedInfo\<close> of \<^verbatim>\<open>addLeadQualificationData\<close>.\<close>

definition updatedInfo :: "json \<Rightarrow> json option \<Rightarrow> json" where
  "updatedInfo info qualificationData =
     JObj (assign (spread [] (Some info)) ''qualification_data''
             (JObj (spread (spread [] (orEmptyObject (qualification_data info)))
                      qualificationData)))"

text \<open>
  \<^verbatim>\<open>.update({additional_info, updated_at}).eq('id', leadId).select()\<close> and \<^verbatim>\<open>data[0]\<close>,
  which is \<^verbatim>\<open>undefined\<close> when no row was updated.
\<close>

definition addLeadQualificationData :: "string \<Rightarrow> json option \<Rightarrow> lead option io" where
  "addLeadQualificationData leadId qualificationData =
     rethrow ''Failed to add lead qualification data: ''
       (await (getLeadById leadId) (\<lambda>lead w.
          let w' = w\<lparr>leads :=
                map (\<lambda>l. if lead.id l = leadId
                          then l\<lparr>lead.additional_info :=
                                   updatedInfo (lead.additional_info lead) qualificationData,
                                 lead.updated_at := clock w\<rparr>
                          else l) (leads w)\<rparr>
          in (Inr (case filter (\<lambda>l. lead.id l = leadId) (leads w') of
                     [] \<Rightarrow> None | r # rs \<Rightarrow> Some r), w')))"

definition getLeadsByPhone :: "string \<Rightarrow> lead list io" where
  "getLeadsByPhone = (\<lambda>phone.
     rethrow ''Failed to fetch leads by phone: ''
       (\<lambda>w. (Inr (filter (\<lambda>l. lead.phone l = Some phone) (leads w)), w)))"

definition updateLeadStatus :: "string \<Rightarrow> string \<Rightarrow> lead option io" where
  "updateLeadStatus = (\<lambda>leadId status.
     rethrow ''Failed to update lead status: ''
       (\<lambda>w. let w' = w\<lparr>leads :=
                  map (\<lambda>l. if lead.id l = leadId
                            then l\<lparr>lead.status := status, lead.updated_at := clock w\<rparr>
                            else l) (leads w)\<rparr>
            in (Inr (case filter (\<lambda>l. lead.id l = leadId) (leads w') of
                       [] \<Rightarrow> None | r # rs \<Rightarrow> Some r), w')))"

section \<open>Conversation model\<close>

text \<open>
  \<^verbatim>\<open>.order('created_at', { ascending: true })\<close> is a stable sort of the rows on
  \<open>created_at\<close>, and the descending order is its reverse.
\<close>

definition addMessage :: "env \<Rightarrow> string \<Rightarrow> string \<Rightarrow> bool \<Rightarrow> message io" where
  "addMessage = (\<lambda>env conversationId content isFromLead.
     rethrow ''Failed to add message: ''
       (await (uuidv4 env) (\<lambda>newId w.
          let m = \<lparr>message.id = newId, conversation_id = conversationId, content = content,
                   is_from_lead = isFromLead, metadata = JObj [], created_at = clock w\<rparr>;
              w1 = w\<lparr>messages := messages w @ [m]\<rparr>;
              w2 = w1\<lparr>conversations :=
                     map (\<lambda>c. if conversation.id c = conversationId
                               then c\<lparr>last_message_at := Some (clock w1),
                                      conversation.updated_at := clock w1\<rparr>
                               else c) (conversations w1)\<rparr>
          in (Inr m, w2))))"

definition startConversation ::
  "env \<Rightarrow> string \<Rightarrow> string \<Rightarrow> string option \<Rightarrow> conversation io" where
  "startConversation env leadId businessId initialMessage =
     rethrow ''Failed to start conversation: ''
       (await (uuidv4 env) (\<lambda>newId.
        await (\<lambda>w.
          let c = \<lparr>conversation.id = newId, lead_id = leadId, business_id = businessId,
                   status = ''active'', last_message_at = None,
                   created_at = clock w, updated_at = clock w\<rparr>
          in (Inr c, w\<lparr>conversations := conversations w @ [c]\<rparr>)) (\<lambda>c.
        (case initialMessage of
           None \<Rightarrow> pure c
         | Some text \<Rightarrow>
             if text = [] then pure c
             else await (addMessage env (conversation.id c) text False) (\<lambda>m. pure c)))))"

definition getActiveConversationByLeadId :: "string \<Rightarrow> conversation option io" where
  "getActiveConversationByLeadId leadId =
     rethrow ''Failed to fetch active conversation: ''
       (\<lambda>w. (singleOrNull
               (take 1 (rev (sort_key conversation.created_at
                  (filter (\<lambda>c. conversation.lead_id c = leadId \<and> conversation.status c = ''active'')
                     (conversations w))))), w))"

text \<open>\<^verbatim>\<open>.range(from, to)\<close>: the rows at positions \<open>from\<close> to \<open>to\<close>, counted from 0, both included.\<close>

definition rowRange :: "nat \<Rightarrow> int \<Rightarrow> 'a list \<Rightarrow> 'a list" where
  "rowRange from_row to_row rows = take (nat (to_row + 1 - int from_row)) (drop from_row rows)"

definition getMessagesByConversationId :: "string \<Rightarrow> nat \<Rightarrow> nat \<Rightarrow> message list io" where
  "getMessagesByConversationId conversationId limit offset =
     rethrow ''Failed to fetch messages: ''
       (\<lambda>w. (Inr (rowRange offset (int offset + int limit - 1)
                    (sort_key message.created_at
                       (filter (\<lambda>m. message.conversation_id m = conversationId) (messages w)))), w))"

definition getRecentMessages :: "string \<Rightarrow> nat \<Rightarrow> message list io" where
  "getRecentMessages conversationId limit =
     rethrow ''Failed to fetch recent messages: ''
       (\<lambda>w. (Inr (rev (take limit (rev (sort_key message.created_at
                    (filter (\<lambda>m. message.conversation_id m = conversationId) (messages w)))))), w))"

section \<open>Business model\<close>

definition getBusinessById :: "string \<Rightarrow> business io" where
  "getBusinessById businessId =
     rethrow ''Failed to fetch business: ''
       (\<lambda>w. (single (filter (\<lambda>b. business.id b = businessId) (businesses w)), w))"

definition getBusinessByUserId :: "string \<Rightarrow> business option io" where
  "getBusinessByUserId userId =
     rethrow ''Failed to fetch business by user: ''
       (\<lambda>w. (singleOrNull (filter (\<lambda>b. business.user_id b = userId) (businesses w)), w))"

definition getAssistantConfig :: "string \<Rightarrow> assistant_config option io" where
  "getAssistantConfig businessId =
     rethrow ''Failed to fetch assistant config: ''
       (\<lambda>w. (singleOrNull
               (filter (\<lambda>c. assistant_config.business_id c = businessId) (assistant_configs w)), w))"

section \<open>Text generation service\<close>

text \<open>
  The object the store's client returns for a row of \<^verbatim>\<open>messages\<close>: one property per
  column, under the column's name.
\<close>

definition message_object :: "message \<Rightarrow> (string \<times> json) list" where
  "message_object m =
     [(''id'', JStr (message.id m)),
      (''conversation_id'', JStr (message.conversation_id m)),
      (''content'', JStr (message.content m)),
      (''is_from_lead'', JBool (message.is_from_lead m)),
      (''metadata'', message.metadata m),
      (''created_at'', JNum (message.created_at m))]"

definition systemPrompt ::
  "string \<Rightarrow> string \<Rightarrow> string \<Rightarrow> string \<Rightarrow> string \<Rightarrow> string \<Rightarrow> string" where
  "systemPrompt = (\<lambda>businessName industry services tone role requiredInfo.
     ''You are a helpful '' @ role @ '' for '' @ businessName @ '', a company in the '' @ industry
       @ '' industry that offers '' @ services @ ''. '' @ [CHR 0x0A]
       @ ''    Your tone should be '' @ tone
       @ ''. Your goal is to qualify leads by collecting the following information: ''
       @ requiredInfo @ ''.'' @ [CHR 0x0A]
       @ ''    If appropriate in the conversation, suggest booking a meeting. ''
       @ ''Be natural, friendly and conversational.'')"

text \<open>\<open>formattedHistory\<close>: the properties read of each history object are \<^verbatim>\<open>isFromLead\<close> and \<^verbatim>\<open>content\<close>.\<close>

definition formattedHistory :: "(string \<times> json) list list \<Rightarrow> chat list" where
  "formattedHistory conversationHistory =
     map (\<lambda>msg. \<lparr>role = (if truthy (property msg ''isFromLead'') then ''user'' else ''assistant''),
                  content = property msg ''content''\<rparr>) conversationHistory"

text \<open>The array \<^verbatim>\<open>messages\<close> of the request.\<close>

definition chatMessages ::
  "string \<Rightarrow> string \<Rightarrow> string \<Rightarrow> string \<Rightarrow> string \<Rightarrow> string \<Rightarrow> (string \<times> json) list list
     \<Rightarrow> string \<Rightarrow> chat list" where
  "chatMessages = (\<lambda>businessName industry services tone role requiredInfo conversationHistory userMessage.
     [\<lparr>role = ''system'',
       content = Some (JStr (systemPrompt businessName industry services tone role requiredInfo))\<rparr>]
     @ formattedHistory conversationHistory
     @ [\<lparr>role = ''user'', content = Some (JStr userMessage)\<rparr>])"

definition generateConversation ::
  "env \<Rightarrow> string \<Rightarrow> string \<Rightarrow> string \<Rightarrow> string \<Rightarrow> string \<Rightarrow> string \<Rightarrow> (string \<times> json) list list
     \<Rightarrow> string \<Rightarrow> string io" where
  "generateConversation = (\<lambda>env businessName industry services tone role requiredInfo
       conversationHistory userMessage.
     rethrowAs ''Failed to generate response from AI''
       (\<lambda>w. let request = chatMessages businessName industry services tone role requiredInfo
                             conversationHistory userMessage
            in (chat_completions_create env request,
                w\<lparr>openai_requests := openai_requests w @ [request]\<rparr>)))"

section \<open>Messaging service\<close>

definition sendWhatsAppMessage :: "env \<Rightarrow> string \<Rightarrow> string \<Rightarrow> unit io" where
  "sendWhatsAppMessage env to_number text =
     rethrow ''Failed to send WhatsApp message: ''
       (\<lambda>w. let request = \<lparr>twilio_body = text,
                            twilio_from = ''whatsapp:'' @ TWILIO_WHATSAPP_NUMBER env,
                            twilio_to = ''whatsapp:'' @ to_number\<rparr>
            in (twilio_messages_create env request,
                w\<lparr>twilio_requests := twilio_requests w @ [request]\<rparr>))"

definition sendSMS :: "env \<Rightarrow> string \<Rightarrow> string \<Rightarrow> unit io" where
  "sendSMS env to_number text =
     rethrow ''Failed to send SMS: ''
       (\<lambda>w. let request = \<lparr>twilio_body = text,
                            twilio_from = TWILIO_PHONE_NUMBER env,
                            twilio_to = to_number\<rparr>
            in (twilio_messages_create env request,
                w\<lparr>twilio_requests := twilio_requests w @ [request]\<rparr>))"

definition sendMessage :: "env \<Rightarrow> string \<Rightarrow> string \<Rightarrow> string \<Rightarrow> unit io" where
  "sendMessage env to_number text channel =
     (if toLowerCase channel = ''whatsapp'' then sendWhatsAppMessage env to_number text
      else if toLowerCase channel = ''sms'' then sendSMS env to_number text
      else throw (Error (''Unsupported channel: '' @ channel)))"

section \<open>Conversation service\<close>

text \<open>
  The regular expression of the budget rule, matched on lower-cased text: the word
  \<^verbatim>\<open>budget\<close>, white space, optionally \<^verbatim>\<open>is\<close>, \<^verbatim>\<open>of\<close> or a colon, white space, optionally
  one currency sign (dollar, pound or euro), white space, and the group: a digit followed
  by digits and commas. After the word, every way through the optional parts ends at the
  first digit, so the greedy reading decides the match. The pound sign is character 163;
  the euro sign is outside the alphabet. \<open>budgetMatch\<close> is the group of the leftmost match.
\<close>

definition isCurrency :: "char \<Rightarrow> bool" where
  "isCurrency c \<longleftrightarrow> c = CHR ''$'' \<or> (of_char c :: nat) = 163"

definition budgetGroup :: "string \<Rightarrow> string option" where
  "budgetGroup rest =
     (let r1 = dropWhile isSpace rest;
          r2 = (if startsWith r1 ''is'' \<or> startsWith r1 ''of'' then drop 2 r1
                else if startsWith r1 '':'' then drop 1 r1 else r1);
          r3 = dropWhile isSpace r2;
          r4 = (case r3 of [] \<Rightarrow> r3 | c # cs \<Rightarrow> if isCurrency c then cs else r3);
          r5 = dropWhile isSpace r4
      in case r5 of
           [] \<Rightarrow> None
         | c # cs \<Rightarrow> if isDigit c then Some (takeWhile (\<lambda>x. isDigit x \<or> x = CHR '','') r5) else None)"

fun budgetMatch :: "string \<Rightarrow> string option" where
  "budgetMatch [] = None"
| "budgetMatch (c # cs) =
     (case (if startsWith (c # cs) ''budget'' then budgetGroup (drop 6 (c # cs)) else None) of
        Some g \<Rightarrow> Some g
      | None \<Rightarrow> budgetMatch cs)"

text \<open>The body of the two nested loops of \<^verbatim>\<open>extractQualificationData\<close>, for one field and one message.\<close>

definition analyse :: "string \<Rightarrow> message \<Rightarrow> (string \<times> json) list \<Rightarrow> (string \<times> json) list" where
  "analyse field m qualificationData =
     (if \<not> message.is_from_lead m then qualificationData
      else
        let content = toLowerCase (message.content m);
            q1 = (if field = ''budget'' \<and> includesJS content ''budget''
                  then (case budgetMatch content of
                          Some g \<Rightarrow> assign qualificationData ''budget''
                                     (JStr (filter (\<lambda>c. c \<noteq> CHR '','') g))
                        | None \<Rightarrow> qualificationData)
                  else qualificationData)
        in if field = ''timeline'' \<and> (includesJS content ''timeline'' \<or> includesJS content ''time frame'')
           then (if includesJS content ''month'' then assign q1 ''timeline'' (JStr ''months'')
                 else if includesJS content ''week'' then assign q1 ''timeline'' (JStr ''weeks'')
                 else if includesJS content ''day'' then assign q1 ''timeline'' (JStr ''days'')
                 else q1)
           else q1)"

definition requiredFields :: "string \<Rightarrow> string list" where
  "requiredFields requiredInfo = map (\<lambda>field. toLowerCase (trim field)) (split CHR '','' requiredInfo)"

definition scanMessages :: "string list \<Rightarrow> message list \<Rightarrow> (string \<times> json) list" where
  "scanMessages fieldNames msgs =
     fold (\<lambda>field q. fold (\<lambda>m q'. analyse field m q') msgs q) fieldNames []"

text \<open>The call of \<^verbatim>\<open>getMessagesByConversationId\<close> takes the defaults \<^verbatim>\<open>limit = 100, offset = 0\<close>.\<close>

definition extractQualificationData :: "string \<Rightarrow> string \<Rightarrow> string \<Rightarrow> unit io" where
  "extractQualificationData leadId conversationId requiredInfo =
     swallow
       (await (getMessagesByConversationId conversationId 100 0) (\<lambda>msgs.
          let qualificationData = scanMessages (requiredFields requiredInfo) msgs
          in if 0 < length qualificationData
             then await (addLeadQualificationData leadId (Some (JObj qualificationData)))
                    (\<lambda>updated. pure ())
             else pure ()))"

definition processIncomingMessage ::
  "env \<Rightarrow> string \<Rightarrow> string \<Rightarrow> string \<Rightarrow> (lead \<times> conversation \<times> string) io" where
  "processIncomingMessage = (\<lambda>env phone text channel.
     rethrow ''Failed to process incoming message: ''
       (await (getLeadsByPhone phone) (\<lambda>found.
        (case found of
           [] \<Rightarrow> throw (Error ''Lead not found for this phone number'')
         | lead # others \<Rightarrow>
        await (getActiveConversationByLeadId (lead.id lead)) (\<lambda>active.
        await (case active of
                 None \<Rightarrow> startConversation env (lead.id lead) (lead.business_id lead) None
               | Some c \<Rightarrow> pure c) (\<lambda>conversation.
        await (addMessage env (conversation.id conversation) text True) (\<lambda>inbound.
        await (getBusinessById (lead.business_id lead)) (\<lambda>business.
        await (getAssistantConfig (lead.business_id lead)) (\<lambda>assistantConfig.
        (case assistantConfig of
           None \<Rightarrow> throw (Error ''Business or assistant configuration not found'')
         | Some config \<Rightarrow>
        await (getRecentMessages (conversation.id conversation) 20) (\<lambda>conversationHistory.
        await (generateConversation env (business.name business) (business.industry business)
                 (business.services business) (assistant_config.tone config)
                 (assistant_config.role config) (assistant_config.required_info config)
                 (map message_object conversationHistory) text) (\<lambda>aiResponse.
        await (addMessage env (conversation.id conversation) aiResponse False) (\<lambda>outbound.
        await (sendMessage env phone aiResponse channel) (\<lambda>sent.
        await (extractQualificationData (lead.id lead) (conversation.id conversation)
                 (assistant_config.required_info config)) (\<lambda>extracted.
        pure (lead, conversation, aiResponse))))))))))))))))"

section \<open>Calendar service: availability check and event creation\<close>

definition checkAvailability :: "env \<Rightarrow> string \<Rightarrow> string \<Rightarrow> string \<Rightarrow> bool io" where
  "checkAvailability env refreshToken startTime endTime =
     rethrowAs ''Failed to check calendar availability''
       (\<lambda>w. ((case freebusy_query env refreshToken startTime endTime of
                 Inl e \<Rightarrow> Inl e
               | Inr busySlots \<Rightarrow> Inr (length busySlots = 0)),
              w\<lparr>calendar_requests :=
                  calendar_requests w @ [FreebusyQuery refreshToken startTime endTime]\<rparr>))"

text \<open>
  The object \<open>event\<close> of the calendar's \<^verbatim>\<open>createMeeting\<close>; the location is set only when
  it is truthy.
\<close>

definition calendarEvent ::
  "string \<Rightarrow> string \<Rightarrow> string \<Rightarrow> string \<Rightarrow> string \<Rightarrow> string list \<Rightarrow> string option
     \<Rightarrow> calendar_event" where
  "calendarEvent = (\<lambda>summary description startTime endTime timezone attendees location.
     \<lparr>summary = summary, description = description,
      start_dateTime = startTime, end_dateTime = endTime,
      timeZone = timezone, attendees = attendees,
      location = (case location of
                    None \<Rightarrow> None
                  | Some l \<Rightarrow> if l = [] then None else Some l)\<rparr>)"

text \<open>The calendar's \<^verbatim>\<open>createMeeting\<close>; what the caller reads of the created event is its \<^verbatim>\<open>id\<close>.\<close>

definition calendarService_createMeeting ::
  "env \<Rightarrow> string \<Rightarrow> string \<Rightarrow> string \<Rightarrow> string \<Rightarrow> string \<Rightarrow> string \<Rightarrow> string list
     \<Rightarrow> string option \<Rightarrow> string io" where
  "calendarService_createMeeting =
     (\<lambda>env refreshToken summary description startTime endTime timezone attendees location.
     rethrowAs ''Failed to create calendar event''
       (\<lambda>w. let event = calendarEvent summary description startTime endTime timezone
                            attendees location
            in (events_insert env refreshToken event,
                w\<lparr>calendar_requests := calendar_requests w @ [EventsInsert refreshToken event]\<rparr>)))"

section \<open>User model and scheduling model\<close>

definition getCalendarCredentials :: "string \<Rightarrow> string \<Rightarrow> calendar_integration option io" where
  "getCalendarCredentials = (\<lambda>userId provider.
     rethrow ''Failed to get calendar credentials: ''
       (\<lambda>w. (singleOrNull
               (filter (\<lambda>c. calendar_integration.user_id c = userId
                             \<and> calendar_integration.provider c = provider)
                  (calendar_integrations w)), w)))"

text \<open>
  The argument \<open>meetingData\<close> of the scheduling model's \<^verbatim>\<open>createMeeting\<close>; a property the
  caller leaves out is \<open>None\<close>.
\<close>

record meetingData =
  title :: string
  description :: "string option"
  start_time :: string
  end_time :: string
  timezone :: string
  status :: "string option"
  location :: "string option"
  google_event_id :: "string option"
  outlook_event_id :: "string option"
  additional_info :: "json option"

definition schedulingModel_createMeeting ::
  "env \<Rightarrow> string \<Rightarrow> string \<Rightarrow> string option \<Rightarrow> meetingData \<Rightarrow> meeting io" where
  "schedulingModel_createMeeting env leadId businessId conversationId data =
     rethrow ''Failed to create meeting: ''
       (await (uuidv4 env) (\<lambda>newId w.
          let m = \<lparr>meeting.id = newId, lead_id = leadId, business_id = businessId,
                   conversation_id = conversationId,
                   title = meetingData.title data,
                   description = meetingData.description data,
                   start_time = meetingData.start_time data,
                   end_time = meetingData.end_time data,
                   timezone = meetingData.timezone data,
                   status = (case meetingData.status data of None \<Rightarrow> ''scheduled'' | Some st \<Rightarrow> st),
                   location = meetingData.location data,
                   google_event_id = meetingData.google_event_id data,
                   outlook_event_id = meetingData.outlook_event_id data,
                   additional_info =
                     (case meetingData.additional_info data of None \<Rightarrow> JObj [] | Some i \<Rightarrow> i),
                   created_at = clock w\<rparr>
          in (Inr m, w\<lparr>meetings := meetings w @ [m]\<rparr>)))"

section \<open>Scheduling routes: POST /api/scheduling/meetings\<close>

text \<open>
  The body of the request. express-validator reads a missing field as the empty string,
  so the five validated fields are strings; the others may be missing.
\<close>

record meeting_body =
  leadId :: string
  title :: string
  description :: "string option"
  startTime :: string
  endTime :: string
  timezone :: string
  location :: "string option"
  conversationId :: "string option"

datatype response_body = Errors "string list" | Message string | MeetingCreated meeting

datatype response = Json nat response_body | Next error

definition validationResult :: "env \<Rightarrow> meeting_body \<Rightarrow> string list" where
  "validationResult env body =
     (if meeting_body.leadId body = [] then [''Lead ID is required''] else [])
     @ (if meeting_body.title body = [] then [''Meeting title is required''] else [])
     @ (if isISO8601 env (meeting_body.startTime body) then [] else [''Valid ISO start time is required''])
     @ (if isISO8601 env (meeting_body.endTime body) then [] else [''Valid ISO end time is required''])
     @ (if meeting_body.timezone body = [] then [''Timezone is required''] else [])"

text \<open>
  The block \<^verbatim>\<open>if (calendarCredentials) { ... }\<close>: it either returns the 409 response from
  the handler (\<open>Inl\<close>) or falls through with \<open>googleEventId\<close> (\<open>Inr\<close>).
\<close>

definition bookInCalendar ::
  "env \<Rightarrow> meeting_body \<Rightarrow> lead \<Rightarrow> calendar_integration option \<Rightarrow> (response + string option) io" where
  "bookInCalendar env body lead calendarCredentials =
     (case calendarCredentials of
        None \<Rightarrow> pure (Inr None)
      | Some credentials \<Rightarrow>
          await (checkAvailability env (calendar_integration.refresh_token credentials)
                   (meeting_body.startTime body) (meeting_body.endTime body)) (\<lambda>available.
          if \<not> available
          then pure (Inl (Json 409 (Message ''Selected time slot is no longer available'')))
          else
            await (calendarService_createMeeting env
                     (calendar_integration.refresh_token credentials)
                     (meeting_body.title body)
                     (case meeting_body.description body of None \<Rightarrow> [] | Some d \<Rightarrow> d)
                     (meeting_body.startTime body) (meeting_body.endTime body)
                     (meeting_body.timezone body)
                     (case lead.email lead of
                        None \<Rightarrow> [] | Some e \<Rightarrow> if e = [] then [] else [e])
                     (meeting_body.location body)) (\<lambda>eventId.
            pure (Inr (Some eventId)))))"

definition meetingsHandler :: "env \<Rightarrow> string \<Rightarrow> meeting_body \<Rightarrow> response io" where
  "meetingsHandler env userId body =
     (if validationResult env body \<noteq> []
      then pure (Json 400 (Errors (validationResult env body)))
      else
        await (getBusinessByUserId userId) (\<lambda>found.
        (case found of
           None \<Rightarrow> pure (Json 404 (Message ''Business not found''))
         | Some business \<Rightarrow>
        await (getLeadById (meeting_body.leadId body)) (\<lambda>lead.
        if lead.business_id lead \<noteq> business.id business
        then pure (Json 404 (Message ''Lead not found''))
        else
        await (getCalendarCredentials userId ''google'') (\<lambda>calendarCredentials.
        await (bookInCalendar env body lead calendarCredentials) (\<lambda>booked.
        (case booked of
           Inl early \<Rightarrow> pure early
         | Inr googleEventId \<Rightarrow>
        await (schedulingModel_createMeeting env (meeting_body.leadId body) (business.id business)
                 (meeting_body.conversationId body)
                 \<lparr>meetingData.title = meeting_body.title body,
                   description = meeting_body.description body,
                   start_time = meeting_body.startTime body,
                   end_time = meeting_body.endTime body,
                   timezone = meeting_body.timezone body,
                   status = None,
                   location = meeting_body.location body,
                   google_event_id = googleEventId,
                   outlook_event_id = None,
                   additional_info = None\<rparr>) (\<lambda>meeting.
        await (if lead.status lead = ''new''
               then await (updateLeadStatus (meeting_body.leadId body) ''qualified'')
                      (\<lambda>updated. pure ())
               else pure ()) (\<lambda>done.
        pure (Json 201 (MeetingCreated meeting)))))))))))"

text \<open>The route: an error thrown in the handler goes to \<^verbatim>\<open>next(error)\<close>.\<close>

definition postMeetings :: "env \<Rightarrow> string \<Rightarrow> meeting_body \<Rightarrow> world \<Rightarrow> response \<times> world" where
  "postMeetings env userId body =
     (\<lambda>w. case meetingsHandler env userId body w of
            (Inl e, w') \<Rightarrow> (Next e, w')
          | (Inr r, w') \<Rightarrow> (r, w'))"

section \<open>Notions used in the statements\<close>

text \<open>
  The qualification map stored with a lead: the properties of
  \<^verbatim>\<open>lead.additional_info?.qualification_data || {}\<close>.
\<close>

definition qualificationMap :: "lead \<Rightarrow> (string \<times> json) list" where
  "qualificationMap l = ownProperties (orEmptyObject (qualification_data (lead.additional_info l)))"

text \<open>The messages of a conversation, oldest first.\<close>

definition conversationMessages :: "world \<Rightarrow> string \<Rightarrow> message list" where
  "conversationMessages w cid =
     sort_key message.created_at (filter (\<lambda>m. message.conversation_id m = cid) (messages w))"

text \<open>
  A small world for the examples: one business with its assistant, one lead reachable
  on WhatsApp, providers that answer, and no calendar integration.
\<close>

definition example_env :: env where
  "example_env =
     \<lparr>uuid = (\<lambda>n. ''uuid-'' @ decimal n),
      chat_completions_create = (\<lambda>request. Inr ''Happy to help!''),
      twilio_messages_create = (\<lambda>request. Inr ()),
      freebusy_query = (\<lambda>token timeMin timeMax. Inr []),
      events_insert = (\<lambda>token event. Inr ''event-1''),
      TWILIO_WHATSAPP_NUMBER = ''+15550000'',
      TWILIO_PHONE_NUMBER = ''+15550001'',
      isISO8601 = (\<lambda>s. s \<noteq> [])\<rparr>"

definition example_lead :: lead where
  "example_lead =
     \<lparr>lead.id = ''lead-1'', business_id = ''biz-1'', name = Some ''Ada'',
      phone = Some ''+15550100'', email = Some ''ada@example.com'', source = None,
      contact_channel = ''whatsapp'', status = ''new'',
      additional_info = JObj [(''note'', JStr ''vip''),
                              (''qualification_data'', JObj [(''budget'', JStr ''4000'')])],
      created_at = 1704000000000, updated_at = 1704000000000\<rparr>"

definition example_world :: world where
  "example_world =
     \<lparr>leads = [example_lead], conversations = [], messages = [],
      businesses = [\<lparr>business.id = ''biz-1'', user_id = ''user-1'', name = ''Acme'',
                     industry = ''real estate'', services = ''brokerage''\<rparr>],
      assistant_configs = [\<lparr>assistant_config.id = ''cfg-1'', business_id = ''biz-1'',
                             role = ''assistant'', tone = ''friendly'',
                             greeting_message = None, required_info = ''Budget, Timeline''\<rparr>],
      calendar_integrations = [], meetings = [], clock = 1704099600000, uuids = 0,
      openai_requests = [], twilio_requests = [], calendar_requests = []\<rparr>"

text \<open>The same world once the user has connected a Google calendar, and a booking request.\<close>

definition calendar_world :: world where
  "calendar_world =
     example_world\<lparr>calendar_integrations :=
       [\<lparr>user_id = ''user-1'', provider = ''google'', refresh_token = ''refresh-1''\<rparr>]\<rparr>"

definition example_body :: meeting_body where
  "example_body =
     \<lparr>leadId = ''lead-1'', title = ''Intro call'', description = None,
      startTime = ''2024-01-01T09:00:00Z'', endTime = ''2024-01-01T09:30:00Z'',
      timezone = ''UTC'', location = None, conversationId = None\<rparr>"

text \<open>Providers that misbehave: a calendar that is busy, one that refuses events, a generator that throws.\<close>

definition busy_env :: env where
  "busy_env =
     example_env\<lparr>freebusy_query :=
       (\<lambda>token timeMin timeMax. Inr [\<lparr>busy_start = 1704099600000, busy_end = 1704101400000\<rparr>])\<rparr>"

definition refusing_env :: env where
  "refusing_env = example_env\<lparr>events_insert := (\<lambda>token event. Inl (Error ''Forbidden''))\<rparr>"

definition silent_env :: env where
  "silent_env =
     example_env\<lparr>chat_completions_create := (\<lambda>request. Inl (Error ''429 quota exceeded''))\<rparr>"

text \<open>
  A conversation of 101 messages: a hundred replies of the assistant, then the lead
  naming a budget.
\<close>

definition long_world :: world where
  "long_world =
     example_world
       \<lparr>conversations := [\<lparr>conversation.id = ''conv-1'', lead_id = ''lead-1'', business_id = ''biz-1'',
                            status = ''active'', last_message_at = Some 100,
                            created_at = 0, updated_at = 100\<rparr>],
        messages :=
          map (\<lambda>n. \<lparr>message.id = ''m-'' @ decimal n, conversation_id = ''conv-1'',
                      content = ''How can I help?'', is_from_lead = False, metadata = JObj [],
                      created_at = int n\<rparr>) [0..<100]
          @ [\<lparr>message.id = ''m-100'', conversation_id = ''conv-1'',
               content = ''Our budget is 5000'', is_from_lead = True, metadata = JObj [],
               created_at = 100\<rparr>]\<rparr>"

definition hundred_world :: world where
  "hundred_world = long_world\<lparr>messages := tl (messages long_world)\<rparr>"

text \<open>What is asked of a returned slot: the requested length, and no conflict with a busy interval.\<close>

definition goodSlot :: "busy list \<Rightarrow> int \<Rightarrow> slot \<Rightarrow> bool" where
  "goodSlot busySlots durationMinutes s \<longleftrightarrow>
     slot_end s - slot_start s = durationMinutes * 60000 \<and>
     (\<forall>b \<in> set busySlots. \<not> conflicts (slot_start s) (slot_end s) b)"


section \<open>Properties of the slot calculator\<close>

lemma slotLoop_good:
  assumes "slotLoop busySlots dur dayEnd slotStart acc = Some r"
  shows "(\<forall>x \<in> set acc. goodSlot busySlots dur x) \<longrightarrow> (\<forall>x \<in> set r. goodSlot busySlots dur x)"
proof (rule slotLoop.raw_induct
    [where P = "\<lambda>bs d e s a y. (\<forall>x \<in> set a. goodSlot bs d x) \<longrightarrow> (\<forall>x \<in> set y. goodSlot bs d x)",
     OF _ assms])
  fix f bs d e s a y
  assume IH: "\<And>bs d e s a y. f bs d e s a = Some y \<Longrightarrow>
      (\<forall>x \<in> set a. goodSlot bs d x) \<longrightarrow> (\<forall>x \<in> set y. goodSlot bs d x)"
    and step: "(if s + d * 60000 \<le> e
      then f bs d e (s + d * 60000)
             (if isAvailable bs (s + d * 60000) (s + d * 60000 + d * 60000)
              then a @ [\<lparr>slot_start = s + d * 60000, slot_end = s + d * 60000 + d * 60000\<rparr>]
              else a)
      else Some a) = Some y"
  show "(\<forall>x \<in> set a. goodSlot bs d x) \<longrightarrow> (\<forall>x \<in> set y. goodSlot bs d x)"
  proof (cases "s + d * 60000 \<le> e")
    case True
    define a' where "a' = (if isAvailable bs (s + d * 60000) (s + d * 60000 + d * 60000)
              then a @ [\<lparr>slot_start = s + d * 60000, slot_end = s + d * 60000 + d * 60000\<rparr>]
              else a)"
    from step True have "f bs d e (s + d * 60000) a' = Some y"
      by (simp add: a'_def)
    from IH [OF this] have *: "(\<forall>x \<in> set a'. goodSlot bs d x) \<longrightarrow> (\<forall>x \<in> set y. goodSlot bs d x)" .
    have "(\<forall>x \<in> set a. goodSlot bs d x) \<longrightarrow> (\<forall>x \<in> set a'. goodSlot bs d x)"
      by (simp add: a'_def goodSlot_def isAvailable_def list_ex_iff)
    with * show ?thesis by blast
  next
    case False
    with step show ?thesis by simp
  qed
qed

lemma slotLoop_returns:
  "0 < dur \<Longrightarrow> \<exists>r. slotLoop busySlots dur dayEnd slotStart acc = Some r"
proof (induction "nat (dayEnd - slotStart)" arbitrary: slotStart acc rule: less_induct)
  case less
  show ?case
  proof (cases "slotStart + dur * 60000 \<le> dayEnd")
    case True
    with less.prems have "nat (dayEnd - (slotStart + dur * 60000)) < nat (dayEnd - slotStart)"
      by simp
    from less.hyps [OF this less.prems] show ?thesis
      by (subst slotLoop.simps) (simp add: True)
  next
    case False
    then show ?thesis by (subst slotLoop.simps) simp
  qed
qed

lemma daySlots_good:
  "daySlots z busySlots dur hrs d acc = Some r \<Longrightarrow> \<forall>x \<in> set acc. goodSlot busySlots dur x \<Longrightarrow>
     \<forall>x \<in> set r. goodSlot busySlots dur x"
  using slotLoop_good [of busySlots dur _ _ acc r]
  by (auto simp: daySlots_def split: option.splits)

lemma daySlots_returns:
  "0 < dur \<Longrightarrow> \<exists>r. daySlots z busySlots dur hrs d acc = Some r"
  by (auto simp: daySlots_def slotLoop_returns split: option.splits)

lemma dayLoop_good:
  "dayLoop z busySlots dur hrs endDay d acc = Some r \<Longrightarrow> \<forall>x \<in> set acc. goodSlot busySlots dur x \<Longrightarrow>
     \<forall>x \<in> set r. goodSlot busySlots dur x"
proof (induction z busySlots dur hrs endDay d acc rule: dayLoop.induct)
  case (1 z busySlots dur hrs endDay d acc)
  show ?case
  proof (cases "d \<le> endDay")
    case True
    with "1.prems"(1) obtain acc' where
      a: "daySlots z busySlots dur hrs d acc = Some acc'" and
      b: "dayLoop z busySlots dur hrs endDay (d + 1) acc' = Some r"
      by (auto split: option.splits)
    from daySlots_good [OF a "1.prems"(2)] "1.IH" [OF True a b] show ?thesis by blast
  next
    case False
    with "1.prems" show ?thesis by simp
  qed
qed

lemma dayLoop_returns:
  "0 < dur \<Longrightarrow> \<exists>r. dayLoop z busySlots dur hrs endDay d acc = Some r"
proof (induction z busySlots dur hrs endDay d acc rule: dayLoop.induct)
  case (1 z busySlots dur hrs endDay d acc)
  show ?case
  proof (cases "d \<le> endDay")
    case True
    from daySlots_returns [OF "1.prems"] obtain acc' where
      a: "daySlots z busySlots dur hrs d acc = Some acc'" by blast
    from "1.IH" [OF True a "1.prems"] a True show ?thesis by simp
  next
    case False
    then show ?thesis by simp
  qed
qed

lemma conflicts_overlap:
  "ss < se \<Longrightarrow> ss < busy_end b \<Longrightarrow> busy_start b < se \<Longrightarrow> conflicts ss se b"
  by (auto simp: conflicts_def)

text \<open>
  Claim C1. Whenever \<^verbatim>\<open>suggestTimeSlots\<close> returns a list of slots, every slot of the list is
  exactly \<open>durationMinutes\<close> long, whether or not anything is busy; and against every busy
  interval of the provider's answer none of the three overlap conditions holds: the
  slot's start is not inside the busy interval, its end is not inside it, and the slot
  does not contain it. For a positive duration the call does return, and the slot and the
  busy interval are disjoint as half-open intervals.
\<close>

theorem suggestTimeSlots_slots_free:
  "(0 < dur \<longrightarrow> (\<exists>res. suggestTimeSlots z fb startDate endDate dur hrs = Some res)) \<and>
   (suggestTimeSlots z (Inr busySlots) startDate endDate dur hrs = Some (Inr slots) \<and>
      s \<in> set slots \<longrightarrow>
      slot_end s - slot_start s = dur * 60000 \<and>
      (\<forall>b \<in> set busySlots.
         \<not> (busy_start b \<le> slot_start s \<and> slot_start s < busy_end b) \<and>
         \<not> (busy_start b < slot_end s \<and> slot_end s \<le> busy_end b) \<and>
         \<not> (slot_start s \<le> busy_start b \<and> busy_end b \<le> slot_end s) \<and>
         (0 < dur \<longrightarrow> \<not> (slot_start s < busy_end b \<and> busy_start b < slot_end s))))"
proof (intro conjI impI ballI)
  assume "0 < dur"
  then show "\<exists>res. suggestTimeSlots z fb startDate endDate dur hrs = Some res"
    using dayLoop_returns [of dur z _ hrs endDate startDate "[]"]
    by (cases fb) (auto simp: suggestTimeSlots_def)
next
  assume a: "suggestTimeSlots z (Inr busySlots) startDate endDate dur hrs = Some (Inr slots) \<and>
      s \<in> set slots"
  then have "dayLoop z busySlots dur hrs endDate startDate [] = Some slots"
    by (auto simp: suggestTimeSlots_def)
  from dayLoop_good [OF this] a have g: "goodSlot busySlots dur s" by simp
  then show d: "slot_end s - slot_start s = dur * 60000"
    by (simp add: goodSlot_def)
  fix b
  assume "b \<in> set busySlots"
  with g have c: "\<not> conflicts (slot_start s) (slot_end s) b"
    by (simp add: goodSlot_def)
  from c show "\<not> (busy_start b \<le> slot_start s \<and> slot_start s < busy_end b)"
    by (simp add: conflicts_def)
  from c show "\<not> (busy_start b < slot_end s \<and> slot_end s \<le> busy_end b)"
    by (simp add: conflicts_def)
  from c show "\<not> (slot_start s \<le> busy_start b \<and> busy_end b \<le> slot_end s)"
    by (simp add: conflicts_def)
  { assume "0 < dur"
    with d have "slot_start s < slot_end s" by simp
    with c conflicts_overlap [of "slot_start s" "slot_end s" b]
    show "\<not> (slot_start s < busy_end b \<and> busy_start b < slot_end s)" by blast }
qed

theorem suggestTimeSlots_slots_free_witness:
  "(suggestTimeSlots utc (Inr [\<lparr>busy_start = 1704103200000, busy_end = 1704105000000\<rparr>]) 19723 19723 30
      [\<lparr>h_day = ''monday'', h_start = ''09:00'', h_end = ''10:00''\<rparr>]
     = Some (Inr [\<lparr>slot_start = 1704101400000, slot_end = 1704103200000\<rparr>]) \<and>
   slot_end \<lparr>slot_start = 1704101400000, slot_end = 1704103200000\<rparr>
     - slot_start \<lparr>slot_start = 1704101400000, slot_end = 1704103200000\<rparr> = 30 * 60000 \<and>
   \<not> (slot_start \<lparr>slot_start = 1704101400000, slot_end = 1704103200000\<rparr>
         < busy_end \<lparr>busy_start = 1704103200000, busy_end = 1704105000000\<rparr> \<and>
       busy_start \<lparr>busy_start = 1704103200000, busy_end = 1704105000000\<rparr>
         < slot_end \<lparr>slot_start = 1704101400000, slot_end = 1704103200000\<rparr>)) \<and>
   (suggestTimeSlots utc (Inr []) 19722 19724 30
      [\<lparr>h_day = ''monday'', h_start = ''09:00'', h_end = ''10:00''\<rparr>]
     = Some (Inr [\<lparr>slot_start = 1704101400000, slot_end = 1704103200000\<rparr>,
                  \<lparr>slot_start = 1704103200000, slot_end = 1704105000000\<rparr>]) \<and>
    slot_end \<lparr>slot_start = 1704103200000, slot_end = 1704105000000\<rparr>
     - slot_start \<lparr>slot_start = 1704103200000, slot_end = 1704105000000\<rparr> = 30 * 60000)"
proof -
  let ?hrs = "[\<lparr>h_day = ''monday'', h_start = ''09:00'', h_end = ''10:00''\<rparr>]"
  let ?b = "\<lparr>busy_start = 1704103200000, busy_end = 1704105000000\<rparr>"
  let ?s1 = "\<lparr>slot_start = 1704101400000, slot_end = 1704103200000\<rparr>"
  let ?s2 = "\<lparr>slot_start = 1704103200000, slot_end = 1704105000000\<rparr>"
  have h1: "suggestTimeSlots utc (Inr [?b]) 19723 19723 30 ?hrs = Some (Inr [?s1])"
    by code_simp
  have h2: "suggestTimeSlots utc (Inr []) 19722 19724 30 ?hrs = Some (Inr [?s1, ?s2])"
    by code_simp
  from h1 suggestTimeSlots_slots_free [of 30 utc "Inr [?b]" 19723 19723 ?hrs "[?b]" "[?s1]" ?s1]
  have "slot_end ?s1 - slot_start ?s1 = 30 * 60000 \<and>
        \<not> (slot_start ?s1 < busy_end ?b \<and> busy_start ?b < slot_end ?s1)"
    by simp
  moreover from h2 suggestTimeSlots_slots_free [of 30 utc "Inr []" 19722 19724 ?hrs "[]" "[?s1, ?s2]" ?s2]
  have "slot_end ?s2 - slot_start ?s2 = 30 * 60000"
    by simp
  ultimately show ?thesis using h1 h2 by blast
qed

text \<open>
  Claim C2. Business hours monday 09:00 to 10:00, 30 minutes, nothing busy, over Sunday
  2023-12-31 to Tuesday 2024-01-02 (days 19722 to 19724). The loop test advances
  \<open>slotStart\<close> before the first slot is built and compares the slot's start, not its end,
  with the closing time: the slots returned are 09:30 to 10:00 and 10:00 to 10:30, where
  09:00 to 09:30 and 09:30 to 10:00 are expected.
\<close>

theorem suggestTimeSlots_monday_shifted:
  "suggestTimeSlots utc (Inr []) 19722 19724 30
      [\<lparr>h_day = ''monday'', h_start = ''09:00'', h_end = ''10:00''\<rparr>]
     = Some (Inr [\<lparr>slot_start = 1704101400000, slot_end = 1704103200000\<rparr>,
                  \<lparr>slot_start = 1704103200000, slot_end = 1704105000000\<rparr>])"
  by code_simp

text \<open>
  Claim C3. The same request with the busy interval 09:00 to 09:30 of that Monday
  (instants 1704099600000 to 1704101400000): 09:30 to 10:00 is returned, and so is
  10:00 to 10:30, which lies after the closing time.
\<close>

theorem suggestTimeSlots_monday_busy_shifted:
  "suggestTimeSlots utc (Inr [\<lparr>busy_start = 1704099600000, busy_end = 1704101400000\<rparr>]) 19722 19724 30
      [\<lparr>h_day = ''monday'', h_start = ''09:00'', h_end = ''10:00''\<rparr>]
     = Some (Inr [\<lparr>slot_start = 1704101400000, slot_end = 1704103200000\<rparr>,
                  \<lparr>slot_start = 1704103200000, slot_end = 1704105000000\<rparr>])"
  by code_simp

section \<open>Running asynchronous functions\<close>

lemmas io_defs = await_def pure_def throw_def rethrow_def rethrowAs_def swallow_def
  single_def singleOrNull_def uuidv4_def

lemma awaitE:
  assumes "await m f w = (r, w')"
  obtains (thrown) e where "m w = (Inl e, w')" and "r = Inl e"
        | (resolved) x w1 where "m w = (Inr x, w1)" and "f x w1 = (r, w')"
  using assms by (auto simp: await_def split: prod.splits sum.splits)

lemma await_keeps:
  assumes "await m f w = (r, w')"
    and "\<And>w r w'. m w = (r, w') \<Longrightarrow> g w' = g w"
    and "\<And>x w r w'. f x w = (r, w') \<Longrightarrow> g w' = g w"
  shows "g w' = g w"
  using assms(1)
proof (cases rule: awaitE)
  case (thrown e)
  then show ?thesis using assms(2) by blast
next
  case (resolved x w1)
  then show ?thesis using assms(2) [of w "Inr x" w1] assms(3) [of x w1 r w'] by simp
qed

section \<open>Properties of objects and of the qualification merge\<close>

lemma fst_set_assign: "fst ` set (assign obj k v) = insert k (fst ` set obj)"
  by (induction obj k v rule: assign.induct) auto

lemma distinct_assign: "distinct (map fst obj) \<Longrightarrow> distinct (map fst (assign obj k v))"
proof (induction obj k v rule: assign.induct)
  case (1 k v)
  then show ?case by simp
next
  case (2 k' v' ps k v)
  then show ?case
    using fst_set_assign [of ps k v] by auto
qed

lemma map_of_assign: "map_of (assign obj k v) = (map_of obj)(k \<mapsto> v)"
  by (induction obj k v rule: assign.induct) (auto simp: fun_eq_iff)

lemma map_of_rev_distinct: "distinct (map fst xs) \<Longrightarrow> map_of (rev xs) = map_of xs"
proof (induction xs)
  case Nil
  then show ?case by simp
next
  case (Cons a xs)
  then have n: "map_of xs (fst a) = None" and IH: "map_of (rev xs) = map_of xs"
    by (simp_all add: map_of_eq_None_iff)
  show ?case
  proof
    fix k
    show "map_of (rev (a # xs)) k = map_of (a # xs) k"
      using n by (cases a) (auto simp: IH map_add_def split: option.splits)
  qed
qed

lemma property_distinct: "distinct (map fst obj) \<Longrightarrow> property obj k = map_of obj k"
  by (simp add: property_def map_of_rev_distinct)

lemma property_assign:
  "distinct (map fst obj) \<Longrightarrow> property (assign obj k v) k' = (if k' = k then Some v else property obj k')"
  by (simp add: property_distinct distinct_assign map_of_assign)

lemma property_snoc:
  "property (ps @ [(k, v)]) k' = (if k' = k then Some v else property ps k')"
  by (simp add: property_def)

lemma fold_assign:
  "distinct (map fst obj) \<Longrightarrow>
     distinct (map fst (fold (\<lambda>(k, x) obj'. assign obj' k x) ps obj)) \<and>
     (\<forall>k. property (fold (\<lambda>(k, x) obj'. assign obj' k x) ps obj) k =
            (case property ps k of Some x \<Rightarrow> Some x | None \<Rightarrow> property obj k))"
proof (induction ps arbitrary: obj rule: rev_induct)
  case Nil
  then show ?case by (simp add: property_def)
next
  case (snoc p ps)
  obtain k v where p: "p = (k, v)" by (cases p)
  from snoc.IH [OF snoc.prems] show ?case
    by (simp add: p distinct_assign property_assign property_snoc)
qed

lemma distinct_spread: "distinct (map fst obj) \<Longrightarrow> distinct (map fst (spread obj v))"
  by (simp add: spread_def fold_assign)

lemma property_spread:
  "distinct (map fst obj) \<Longrightarrow>
     property (spread obj v) k =
       (case property (ownProperties v) k of Some x \<Rightarrow> Some x | None \<Rightarrow> property obj k)"
  by (simp add: spread_def fold_assign)

lemma property_Nil: "property [] k = None"
  by (simp add: property_def)

lemma property_updatedInfo:
  "property (ownProperties (Some (updatedInfo info qd))) k =
     (if k = ''qualification_data''
      then Some (JObj (spread (spread [] (orEmptyObject (qualification_data info))) qd))
      else property (ownProperties (Some info)) k)"
  by (simp add: updatedInfo_def property_assign distinct_spread property_spread property_Nil
           split: option.splits)

lemma qualificationMap_updated:
  "qualificationMap (l\<lparr>lead.additional_info := updatedInfo info qd, lead.updated_at := t\<rparr>) =
     spread (spread [] (orEmptyObject (qualification_data info))) qd"
proof -
  have "qualification_data (updatedInfo info qd) =
          Some (JObj (spread (spread [] (orEmptyObject (qualification_data info))) qd))"
    using property_updatedInfo [of info qd "''qualification_data''"]
    by (simp add: updatedInfo_def)
  then show ?thesis by (simp add: qualificationMap_def orEmptyObject_def)
qed

lemma property_merged:
  "property (spread (spread [] (orEmptyObject (qualification_data info))) qd) k =
     (case property (ownProperties qd) k of
        Some x \<Rightarrow> Some x
      | None \<Rightarrow> property (ownProperties (orEmptyObject (qualification_data info))) k)"
  by (simp add: property_spread distinct_spread property_Nil split: option.splits)

lemma addLeadQualificationData_run:
  assumes "filter (\<lambda>x. lead.id x = lid) (leads w) = [l]"
  shows "addLeadQualificationData lid qd w =
           (Inr (Some (l\<lparr>lead.additional_info := updatedInfo (lead.additional_info l) qd,
                         lead.updated_at := clock w\<rparr>)),
            w\<lparr>leads := map (\<lambda>x. if lead.id x = lid
                                  then x\<lparr>lead.additional_info := updatedInfo (lead.additional_info l) qd,
                                         lead.updated_at := clock w\<rparr>
                                  else x) (leads w)\<rparr>)"
proof -
  let ?u = "\<lambda>x. if lead.id x = lid
                 then x\<lparr>lead.additional_info := updatedInfo (lead.additional_info l) qd,
                        lead.updated_at := clock w\<rparr>
                 else x"
  have id_u: "\<And>x. lead.id (?u x) = lead.id x" by simp
  have "filter (\<lambda>x. lead.id x = lid) (map ?u (leads w)) =
          map ?u (filter (\<lambda>x. lead.id x = lid) (leads w))"
    by (simp add: filter_map comp_def)
  also have "\<dots> = [?u l]" by (simp add: assms)
  finally have f: "filter (\<lambda>x. lead.id x = lid) (map ?u (leads w)) = [?u l]" .
  have "l \<in> set (filter (\<lambda>x. lead.id x = lid) (leads w))" by (simp add: assms)
  then have "lead.id l = lid" by simp
  with f assms show ?thesis
    by (simp add: addLeadQualificationData_def getLeadById_def rethrow_def await_def single_def Let_def)
qed


lemma filter_other_leads:
  "filter (\<lambda>x. lead.id x \<noteq> lid)
     (map (\<lambda>x. if lead.id x = lid then x\<lparr>lead.additional_info := i, lead.updated_at := t\<rparr> else x) xs) =
   filter (\<lambda>x. lead.id x \<noteq> lid) xs"
  by (induction xs) auto

text \<open>
  Claim C8. For a lead stored under its identifier, \<^verbatim>\<open>addLeadQualificationData\<close> succeeds
  and the merge is additive: every field of the stored qualification map is still a
  field afterwards; a field of the new data holds the new value; a field the new data
  does not name keeps its value; and new data without properties (an empty object,
  \<^verbatim>\<open>null\<close>, \<^verbatim>\<open>undefined\<close>) leaves every field as it was.
\<close>

theorem addLeadQualificationData_additive:
  assumes "filter (\<lambda>x. lead.id x = lid) (leads w) = [l]"
  shows "\<exists>l' w'. addLeadQualificationData lid qd w = (Inr (Some l'), w') \<and>
           filter (\<lambda>x. lead.id x = lid) (leads w') = [l'] \<and>
           (\<forall>k. property (qualificationMap l) k \<noteq> None \<longrightarrow> property (qualificationMap l') k \<noteq> None) \<and>
           (\<forall>k v. property (ownProperties qd) k = Some v \<longrightarrow> property (qualificationMap l') k = Some v) \<and>
           (\<forall>k. property (ownProperties qd) k = None \<longrightarrow>
                 property (qualificationMap l') k = property (qualificationMap l) k) \<and>
           (ownProperties qd = [] \<longrightarrow>
              (\<forall>k. property (qualificationMap l') k = property (qualificationMap l) k))"
proof -
  let ?l' = "l\<lparr>lead.additional_info := updatedInfo (lead.additional_info l) qd,
                lead.updated_at := clock w\<rparr>"
  let ?u = "\<lambda>x. if lead.id x = lid
                 then x\<lparr>lead.additional_info := updatedInfo (lead.additional_info l) qd,
                        lead.updated_at := clock w\<rparr>
                 else x"
  let ?w' = "w\<lparr>leads := map ?u (leads w)\<rparr>"
  have run: "addLeadQualificationData lid qd w = (Inr (Some ?l'), ?w')"
    by (rule addLeadQualificationData_run [OF assms])
  have "filter (\<lambda>x. lead.id x = lid) (map ?u (leads w)) =
          map ?u (filter (\<lambda>x. lead.id x = lid) (leads w))"
    by (simp add: filter_map comp_def)
  moreover have "l \<in> set (filter (\<lambda>x. lead.id x = lid) (leads w))" by (simp add: assms)
  then have "lead.id l = lid" by simp
  ultimately have rows: "filter (\<lambda>x. lead.id x = lid) (leads ?w') = [?l']"
    by (simp add: assms)
  have q: "\<And>k. property (qualificationMap ?l') k =
             (case property (ownProperties qd) k of
                Some x \<Rightarrow> Some x | None \<Rightarrow> property (qualificationMap l) k)"
    unfolding qualificationMap_updated property_merged
    by (simp add: qualificationMap_def split: option.splits)
  have a: "\<forall>k. property (qualificationMap l) k \<noteq> None \<longrightarrow> property (qualificationMap ?l') k \<noteq> None"
    by (simp add: q split: option.splits)
  have b: "\<forall>k v. property (ownProperties qd) k = Some v \<longrightarrow> property (qualificationMap ?l') k = Some v"
    by (simp add: q)
  have c: "\<forall>k. property (ownProperties qd) k = None \<longrightarrow>
                property (qualificationMap ?l') k = property (qualificationMap l) k"
    by (simp add: q)
  have d: "ownProperties qd = [] \<longrightarrow>
             (\<forall>k. property (qualificationMap ?l') k = property (qualificationMap l) k)"
    by (simp add: q property_Nil)
  from run rows a b c d show ?thesis by blast
qed

theorem addLeadQualificationData_additive_witness:
  "filter (\<lambda>x. lead.id x = ''lead-1'') (leads example_world) = [example_lead] \<and>
   (\<exists>l' w'. addLeadQualificationData ''lead-1'' (Some (JObj [(''timeline'', JStr ''weeks'')])) example_world
                = (Inr (Some l'), w') \<and>
            property (qualificationMap l') ''budget'' = Some (JStr ''4000'') \<and>
            property (qualificationMap l') ''timeline'' = Some (JStr ''weeks''))"
proof -
  have h: "filter (\<lambda>x. lead.id x = ''lead-1'') (leads example_world) = [example_lead]"
    by code_simp
  have old: "property (qualificationMap example_lead) ''budget'' = Some (JStr ''4000'')"
    by code_simp
  have new: "property (ownProperties (Some (JObj [(''timeline'', JStr ''weeks'')]))) ''timeline''
               = Some (JStr ''weeks'')"
    by code_simp
  have none: "property (ownProperties (Some (JObj [(''timeline'', JStr ''weeks'')]))) ''budget'' = None"
    by code_simp
  from addLeadQualificationData_additive [OF h, of "Some (JObj [(''timeline'', JStr ''weeks'')])"]
  obtain l' w' where
    "addLeadQualificationData ''lead-1'' (Some (JObj [(''timeline'', JStr ''weeks'')])) example_world
       = (Inr (Some l'), w')"
    and "\<forall>k v. property (ownProperties (Some (JObj [(''timeline'', JStr ''weeks'')]))) k = Some v \<longrightarrow>
            property (qualificationMap l') k = Some v"
    and "\<forall>k. property (ownProperties (Some (JObj [(''timeline'', JStr ''weeks'')]))) k = None \<longrightarrow>
            property (qualificationMap l') k = property (qualificationMap example_lead) k"
    by blast
  with old new none h show ?thesis by auto
qed

text \<open>
  Claim C10. The merge changes, in the row of that lead, only \<open>additional_info\<close> and
  \<open>updated_at\<close>, and inside \<open>additional_info\<close> only the property \<^verbatim>\<open>qualification_data\<close>:
  every other property of \<open>additional_info\<close> reads as before, the columns \<open>id\<close>,
  \<open>business_id\<close>, \<open>name\<close>, \<open>phone\<close>, \<open>email\<close>, \<open>source\<close>, \<open>contact_channel\<close>, \<open>status\<close> and
  \<open>created_at\<close> keep their values, the rows of the other leads are the same, and so is
  the rest of the world.
\<close>

theorem addLeadQualificationData_frame:
  assumes "filter (\<lambda>x. lead.id x = lid) (leads w) = [l]"
  shows "\<exists>l' w'. addLeadQualificationData lid qd w = (Inr (Some l'), w') \<and>
           filter (\<lambda>x. lead.id x = lid) (leads w') = [l'] \<and>
           (\<forall>k. k \<noteq> ''qualification_data'' \<longrightarrow>
                 property (ownProperties (Some (lead.additional_info l'))) k =
                 property (ownProperties (Some (lead.additional_info l))) k) \<and>
           lead.id l' = lead.id l \<and> lead.business_id l' = lead.business_id l \<and>
           lead.name l' = lead.name l \<and> lead.phone l' = lead.phone l \<and>
           lead.email l' = lead.email l \<and> lead.source l' = lead.source l \<and>
           lead.contact_channel l' = lead.contact_channel l \<and> lead.status l' = lead.status l \<and>
           lead.created_at l' = lead.created_at l \<and>
           filter (\<lambda>x. lead.id x \<noteq> lid) (leads w') = filter (\<lambda>x. lead.id x \<noteq> lid) (leads w) \<and>
           w'\<lparr>leads := leads w\<rparr> = w"
proof -
  let ?l' = "l\<lparr>lead.additional_info := updatedInfo (lead.additional_info l) qd,
                lead.updated_at := clock w\<rparr>"
  let ?u = "\<lambda>x. if lead.id x = lid
                 then x\<lparr>lead.additional_info := updatedInfo (lead.additional_info l) qd,
                        lead.updated_at := clock w\<rparr>
                 else x"
  let ?w' = "w\<lparr>leads := map ?u (leads w)\<rparr>"
  have run: "addLeadQualificationData lid qd w = (Inr (Some ?l'), ?w')"
    by (rule addLeadQualificationData_run [OF assms])
  have "filter (\<lambda>x. lead.id x = lid) (map ?u (leads w)) =
          map ?u (filter (\<lambda>x. lead.id x = lid) (leads w))"
    by (simp add: filter_map comp_def)
  moreover have "l \<in> set (filter (\<lambda>x. lead.id x = lid) (leads w))" by (simp add: assms)
  then have "lead.id l = lid" by simp
  ultimately have rows: "filter (\<lambda>x. lead.id x = lid) (leads ?w') = [?l']"
    by (simp add: assms)
  have others: "filter (\<lambda>x. lead.id x \<noteq> lid) (leads ?w') = filter (\<lambda>x. lead.id x \<noteq> lid) (leads w)"
    by (simp add: filter_other_leads)
  have keys: "\<forall>k. k \<noteq> ''qualification_data'' \<longrightarrow>
                 property (ownProperties (Some (lead.additional_info ?l'))) k =
                 property (ownProperties (Some (lead.additional_info l))) k"
    by (simp add: property_updatedInfo)
  have rest: "?w'\<lparr>leads := leads w\<rparr> = w" by simp
  from run rows others keys rest show ?thesis by auto
qed

theorem addLeadQualificationData_frame_witness:
  "filter (\<lambda>x. lead.id x = ''lead-1'') (leads example_world) = [example_lead] \<and>
   (\<exists>l' w'. addLeadQualificationData ''lead-1'' (Some (JObj [(''timeline'', JStr ''weeks'')])) example_world
                = (Inr (Some l'), w') \<and>
            property (ownProperties (Some (lead.additional_info l'))) ''note'' = Some (JStr ''vip'') \<and>
            lead.phone l' = Some ''+15550100'' \<and> lead.status l' = ''new'')"
proof -
  have h: "filter (\<lambda>x. lead.id x = ''lead-1'') (leads example_world) = [example_lead]"
    by code_simp
  have kept: "property (ownProperties (Some (lead.additional_info example_lead))) ''note'' = Some (JStr ''vip'')"
    by code_simp
  have ph: "lead.phone example_lead = Some ''+15550100''" "lead.status example_lead = ''new''"
    by (simp_all add: example_lead_def)
  have ne: "''note'' \<noteq> ''qualification_data''" by simp
  from addLeadQualificationData_frame [OF h, of "Some (JObj [(''timeline'', JStr ''weeks'')])"]
  obtain l' w' where
    "addLeadQualificationData ''lead-1'' (Some (JObj [(''timeline'', JStr ''weeks'')])) example_world
       = (Inr (Some l'), w')"
    and "\<forall>k. k \<noteq> ''qualification_data'' \<longrightarrow>
                 property (ownProperties (Some (lead.additional_info l'))) k =
                 property (ownProperties (Some (lead.additional_info example_lead))) k"
    and "lead.phone l' = lead.phone example_lead" "lead.status l' = lead.status example_lead"
    by blast
  with kept ph ne h show ?thesis by auto
qed

section \<open>Properties of the conversation service\<close>

lemma getLeadsByPhone_run:
  "getLeadsByPhone p w = (Inr (filter (\<lambda>l. lead.phone l = Some p) (leads w)), w)"
  by (simp add: getLeadsByPhone_def io_defs)

lemma getActiveConversationByLeadId_run:
  "\<exists>active. getActiveConversationByLeadId lid w = (Inr active, w)"
proof -
  let ?rows = "rev (sort_key conversation.created_at
                  (filter (\<lambda>c. conversation.lead_id c = lid \<and> conversation.status c = ''active'')
                     (conversations w)))"
  show ?thesis
    by (cases ?rows) (simp_all add: getActiveConversationByLeadId_def io_defs)
qed

lemma startConversation_run:
  "\<exists>c w1. startConversation env lid bid None w = (Inr c, w1) \<and>
     leads w1 = leads w \<and> messages w1 = messages w \<and> businesses w1 = businesses w \<and>
     assistant_configs w1 = assistant_configs w \<and>
     openai_requests w1 = openai_requests w \<and> twilio_requests w1 = twilio_requests w"
  by (simp add: startConversation_def io_defs Let_def)

lemma addMessage_run:
  "\<exists>m w1. addMessage env cid t b w = (Inr m, w1) \<and>
     messages w1 = messages w @ [m] \<and> message.is_from_lead m = b \<and> message.content m = t \<and>
     message.conversation_id m = cid \<and>
     leads w1 = leads w \<and> businesses w1 = businesses w \<and>
     assistant_configs w1 = assistant_configs w \<and>
     openai_requests w1 = openai_requests w \<and> twilio_requests w1 = twilio_requests w"
  by (simp add: addMessage_def io_defs Let_def)

lemma getBusinessById_world: "getBusinessById bid w = (r, w') \<Longrightarrow> w' = w"
  by (auto simp: getBusinessById_def io_defs split: list.splits)

lemma getAssistantConfig_run: "\<exists>c. getAssistantConfig bid w = (Inr c, w)"
proof -
  let ?rows = "filter (\<lambda>c. assistant_config.business_id c = bid) (assistant_configs w)"
  show ?thesis
  proof (cases ?rows)
    case Nil
    then show ?thesis by (simp add: getAssistantConfig_def io_defs)
  next
    case (Cons c cs)
    then show ?thesis by (cases cs) (simp_all add: getAssistantConfig_def io_defs)
  qed
qed

lemma getRecentMessages_run: "\<exists>h. getRecentMessages cid n w = (Inr h, w)"
  by (simp add: getRecentMessages_def io_defs)

lemma generateConversation_run:
  "generateConversation env bn ind serv tn rl info history t w =
     ((case chat_completions_create env (chatMessages bn ind serv tn rl info history t) of
         Inl e \<Rightarrow> Inl (Error ''Failed to generate response from AI'')
       | Inr x \<Rightarrow> Inr x),
      w\<lparr>openai_requests := openai_requests w @ [chatMessages bn ind serv tn rl info history t]\<rparr>)"
  by (simp add: generateConversation_def io_defs Let_def split: sum.splits)

lemma sendMessage_openai:
  "sendMessage env p t c w = (r, w') \<Longrightarrow> openai_requests w' = openai_requests w"
  by (auto simp: sendMessage_def sendWhatsAppMessage_def sendSMS_def io_defs Let_def
           split: if_splits sum.splits)

lemma addLeadQualificationData_openai:
  "addLeadQualificationData lid qd w = (r, w') \<Longrightarrow> openai_requests w' = openai_requests w"
  by (auto simp: addLeadQualificationData_def getLeadById_def io_defs Let_def
           split: list.splits sum.splits prod.splits)

lemma extractQualificationData_openai:
  "extractQualificationData lid cid info w = (r, w') \<Longrightarrow> openai_requests w' = openai_requests w"
  by (auto simp: extractQualificationData_def getMessagesByConversationId_def io_defs Let_def
           dest: addLeadQualificationData_openai
           split: list.splits sum.splits prod.splits if_splits)

lemma addMessage_openai:
  "addMessage env cid t b w = (r, w') \<Longrightarrow> openai_requests w' = openai_requests w"
  using addMessage_run [of env cid t b w] by auto

lemma after_reply_openai:
  assumes "await (addMessage env cid ai False) (\<lambda>outbound.
           await (sendMessage env p ai ch) (\<lambda>sent.
           await (extractQualificationData lid cid info) (\<lambda>extracted.
           pure res))) w = (r, w')"
  shows "openai_requests w' = openai_requests w"
proof (rule await_keeps [OF assms])
  show "\<And>w r w'. addMessage env cid ai False w = (r, w') \<Longrightarrow> openai_requests w' = openai_requests w"
    by (rule addMessage_openai)
next
  fix x w r w'
  assume a: "await (sendMessage env p ai ch) (\<lambda>sent.
           await (extractQualificationData lid cid info) (\<lambda>extracted. pure res)) w = (r, w')"
  show "openai_requests w' = openai_requests w"
  proof (rule await_keeps [OF a])
    show "\<And>w r w'. sendMessage env p ai ch w = (r, w') \<Longrightarrow> openai_requests w' = openai_requests w"
      by (rule sendMessage_openai)
  next
    fix x w r w'
    assume b: "await (extractQualificationData lid cid info) (\<lambda>extracted. pure res) w = (r, w')"
    show "openai_requests w' = openai_requests w"
    proof (rule await_keeps [OF b])
      show "\<And>w r w'. extractQualificationData lid cid info w = (r, w') \<Longrightarrow>
              openai_requests w' = openai_requests w"
        by (rule extractQualificationData_openai)
    next
      show "\<And>x w r w'. pure res w = (r, w') \<Longrightarrow> openai_requests w' = openai_requests w"
        by (simp add: pure_def)
    qed
  qed
qed

text \<open>
  Claim C7. Take a run of \<^verbatim>\<open>processIncomingMessage\<close> in which the generation provider was
  sent a request and threw on it. Then the run fails with the generation error, the only
  message added to the store is the inbound one, with \<open>is_from_lead\<close> true and the text
  received (so no outbound message is stored), nothing was handed to the messaging
  gateway, and the leads are as before: no qualification data was merged.
\<close>

theorem generation_failure_effects:
  assumes run: "processIncomingMessage env phoneNumber text channel w = (r, w')"
    and sent: "openai_requests w' = openai_requests w @ [request]"
    and fails: "chat_completions_create env request = Inl e"
  shows "r = Inl (Error ''Failed to process incoming message: Failed to generate response from AI'') \<and>
         (\<exists>m. messages w' = messages w @ [m] \<and> message.is_from_lead m \<and> message.content m = text) \<and>
         twilio_requests w' = twilio_requests w \<and>
         leads w' = leads w"
proof -
  let ?prefix = "''Failed to process incoming message: ''"
  from run obtain r0 where
    body: "await (getLeadsByPhone phoneNumber) (\<lambda>found.
        (case found of
           [] \<Rightarrow> throw (Error ''Lead not found for this phone number'')
         | lead # others \<Rightarrow>
        await (getActiveConversationByLeadId (lead.id lead)) (\<lambda>active.
        await (case active of
                 None \<Rightarrow> startConversation env (lead.id lead) (lead.business_id lead) None
               | Some c \<Rightarrow> pure c) (\<lambda>conversation.
        await (addMessage env (conversation.id conversation) text True) (\<lambda>inbound.
        await (getBusinessById (lead.business_id lead)) (\<lambda>business.
        await (getAssistantConfig (lead.business_id lead)) (\<lambda>assistantConfig.
        (case assistantConfig of
           None \<Rightarrow> throw (Error ''Business or assistant configuration not found'')
         | Some config \<Rightarrow>
        await (getRecentMessages (conversation.id conversation) 20) (\<lambda>conversationHistory.
        await (generateConversation env (business.name business) (business.industry business)
                 (business.services business) (assistant_config.tone config)
                 (assistant_config.role config) (assistant_config.required_info config)
                 (map message_object conversationHistory) text) (\<lambda>aiResponse.
        await (addMessage env (conversation.id conversation) aiResponse False) (\<lambda>outbound.
        await (sendMessage env phoneNumber aiResponse channel) (\<lambda>sent.
        await (extractQualificationData (lead.id lead) (conversation.id conversation)
                 (assistant_config.required_info config)) (\<lambda>extracted.
        pure (lead, conversation, aiResponse)))))))))))))) w = (r0, w')"
    and r: "r = (case r0 of Inl e \<Rightarrow> Inl (Error (?prefix @ error_message e)) | Inr x \<Rightarrow> Inr x)"
    by (auto simp: processIncomingMessage_def rethrow_def split: prod.splits sum.splits)
  have no: "openai_requests w' \<noteq> openai_requests w" using sent by simp
  from body show ?thesis
  proof (cases rule: awaitE)
    case (thrown e)
    then show ?thesis using no by (simp add: getLeadsByPhone_run)
  next
    case (resolved found w0)
    then have w0: "w0 = w" by (simp add: getLeadsByPhone_run)
    show ?thesis
    proof (cases found)
      case Nil
      with resolved(2) w0 no show ?thesis by (simp add: throw_def)
    next
      case (Cons lead others)
      with resolved(2) w0 have s2:
        "await (getActiveConversationByLeadId (lead.id lead)) (\<lambda>active.
        await (case active of
                 None \<Rightarrow> startConversation env (lead.id lead) (lead.business_id lead) None
               | Some c \<Rightarrow> pure c) (\<lambda>conversation.
        await (addMessage env (conversation.id conversation) text True) (\<lambda>inbound.
        await (getBusinessById (lead.business_id lead)) (\<lambda>business.
        await (getAssistantConfig (lead.business_id lead)) (\<lambda>assistantConfig.
        (case assistantConfig of
           None \<Rightarrow> throw (Error ''Business or assistant configuration not found'')
         | Some config \<Rightarrow>
        await (getRecentMessages (conversation.id conversation) 20) (\<lambda>conversationHistory.
        await (generateConversation env (business.name business) (business.industry business)
                 (business.services business) (assistant_config.tone config)
                 (assistant_config.role config) (assistant_config.required_info config)
                 (map message_object conversationHistory) text) (\<lambda>aiResponse.
        await (addMessage env (conversation.id conversation) aiResponse False) (\<lambda>outbound.
        await (sendMessage env phoneNumber aiResponse channel) (\<lambda>sent.
        await (extractQualificationData (lead.id lead) (conversation.id conversation)
                 (assistant_config.required_info config)) (\<lambda>extracted.
        pure (lead, conversation, aiResponse)))))))))))) w = (r0, w')"
        by simp
      from getActiveConversationByLeadId_run [of "lead.id lead" w] obtain active where
        act: "getActiveConversationByLeadId (lead.id lead) w = (Inr active, w)" by blast
      obtain conversation w1 where
        conv: "(case active of
                 None \<Rightarrow> startConversation env (lead.id lead) (lead.business_id lead) None
               | Some c \<Rightarrow> pure c) w = (Inr conversation, w1)"
        and q1: "leads w1 = leads w" "messages w1 = messages w"
          "openai_requests w1 = openai_requests w" "twilio_requests w1 = twilio_requests w"
      proof (cases active)
        case None
        with startConversation_run [of env "lead.id lead" "lead.business_id lead" w] that
        show ?thesis by auto
      next
        case (Some c)
        with that [of c w] show ?thesis by (simp add: pure_def)
      qed
      from addMessage_run [of env "conversation.id conversation" "text" True w1] obtain m w2 where
        add: "addMessage env (conversation.id conversation) text True w1 = (Inr m, w2)"
        and q2: "messages w2 = messages w1 @ [m]" "message.is_from_lead m" "message.content m = text"
          "leads w2 = leads w1" "openai_requests w2 = openai_requests w1"
          "twilio_requests w2 = twilio_requests w1"
        by auto
      from s2 act conv add have s5:
        "await (getBusinessById (lead.business_id lead)) (\<lambda>business.
        await (getAssistantConfig (lead.business_id lead)) (\<lambda>assistantConfig.
        (case assistantConfig of
           None \<Rightarrow> throw (Error ''Business or assistant configuration not found'')
         | Some config \<Rightarrow>
        await (getRecentMessages (conversation.id conversation) 20) (\<lambda>conversationHistory.
        await (generateConversation env (business.name business) (business.industry business)
                 (business.services business) (assistant_config.tone config)
                 (assistant_config.role config) (assistant_config.required_info config)
                 (map message_object conversationHistory) text) (\<lambda>aiResponse.
        await (addMessage env (conversation.id conversation) aiResponse False) (\<lambda>outbound.
        await (sendMessage env phoneNumber aiResponse channel) (\<lambda>sent.
        await (extractQualificationData (lead.id lead) (conversation.id conversation)
                 (assistant_config.required_info config)) (\<lambda>extracted.
        pure (lead, conversation, aiResponse))))))))) w2 = (r0, w')"
        by (simp add: await_def)
      have no2: "openai_requests w' \<noteq> openai_requests w2" using no q1 q2 by simp
      from s5 show ?thesis
      proof (cases rule: awaitE)
        case (thrown e)
        with getBusinessById_world [of "lead.business_id lead" w2 "Inl e" w'] no2
        show ?thesis by simp
      next
        case (resolved business w3)
        with getBusinessById_world [of "lead.business_id lead" w2 "Inr business" w3]
        have w3: "w3 = w2" by simp
        from getAssistantConfig_run [of "lead.business_id lead" w2] obtain cfg where
          cfg: "getAssistantConfig (lead.business_id lead) w2 = (Inr cfg, w2)" by blast
        show ?thesis
        proof (cases cfg)
          case None
          with resolved(2) w3 cfg no2 show ?thesis by (simp add: await_def throw_def)
        next
          case (Some config)
          from getRecentMessages_run [of "conversation.id conversation" 20 w2] obtain history where
            hist: "getRecentMessages (conversation.id conversation) 20 w2 = (Inr history, w2)" by blast
          let ?request = "chatMessages (business.name business) (business.industry business)
                 (business.services business) (assistant_config.tone config)
                 (assistant_config.role config) (assistant_config.required_info config)
                 (map message_object history) text"
          let ?w4 = "w2\<lparr>openai_requests := openai_requests w2 @ [?request]\<rparr>"
          show ?thesis
          proof (cases "chat_completions_create env ?request")
            case (Inl e')
            with resolved(2) w3 cfg Some hist have "r0 = Inl (Error ''Failed to generate response from AI'')"
              and "w' = ?w4"
              by (simp_all add: await_def generateConversation_run)
            with r q1 q2 show ?thesis by simp
          next
            case (Inr aiResponse)
            with resolved(2) w3 cfg Some hist have rest:
              "await (addMessage env (conversation.id conversation) aiResponse False) (\<lambda>outbound.
               await (sendMessage env phoneNumber aiResponse channel) (\<lambda>sent.
               await (extractQualificationData (lead.id lead) (conversation.id conversation)
                 (assistant_config.required_info config)) (\<lambda>extracted.
               pure (lead, conversation, aiResponse)))) ?w4 = (r0, w')"
              by (simp add: await_def generateConversation_run)
            from after_reply_openai [OF rest] have "openai_requests w' = openai_requests w2 @ [?request]"
              by simp
            with sent q1 q2 have "request = ?request" by simp
            with fails Inr show ?thesis by simp
          qed
        qed
      qed
    qed
  qed
qed

theorem generation_failure_effects_witness:
  "fst (processIncomingMessage silent_env ''+15550100'' ''What do you charge?'' ''whatsapp'' example_world)
     = Inl (Error ''Failed to process incoming message: Failed to generate response from AI'') \<and>
   map message.content
     (messages (snd (processIncomingMessage silent_env ''+15550100'' ''What do you charge?'' ''whatsapp'' example_world)))
     = [''What do you charge?''] \<and>
   twilio_requests (snd (processIncomingMessage silent_env ''+15550100'' ''What do you charge?'' ''whatsapp'' example_world))
     = []"
proof -
  let ?run = "processIncomingMessage silent_env ''+15550100'' ''What do you charge?'' ''whatsapp'' example_world"
  have run: "?run = (fst ?run, snd ?run)" by simp
  have sent: "openai_requests (snd ?run) =
                openai_requests example_world @ [last (openai_requests (snd ?run))]"
    by code_simp
  have fails: "chat_completions_create silent_env (last (openai_requests (snd ?run)))
                 = Inl (Error ''429 quota exceeded'')"
    by (simp add: silent_env_def)
  have m0: "messages example_world = []" "twilio_requests example_world = []"
    by (simp_all add: example_world_def)
  from generation_failure_effects [OF run sent fails] m0 show ?thesis by auto
qed

text \<open>
  The history handed to \<^verbatim>\<open>generateConversation\<close> is made of rows of the table
  \<^verbatim>\<open>messages\<close>, whose flag is the property \<^verbatim>\<open>is_from_lead\<close>; the function reads
  \<^verbatim>\<open>isFromLead\<close>, which no row has, so every history entry is tagged \<^verbatim>\<open>assistant\<close>.
\<close>

lemma formattedHistory_rows:
  "formattedHistory (map message_object history) =
     map (\<lambda>m. \<lparr>role = ''assistant'', content = Some (JStr (message.content m))\<rparr>) history"
  by (simp add: formattedHistory_def message_object_def property_def)

text \<open>
  Claim C4, at a history of one message of the lead and in a full run on the example
  world: the message of the lead goes to the provider tagged \<^verbatim>\<open>assistant\<close>, where
  \<^verbatim>\<open>user\<close> is expected; in the run it is the inbound message, stored with
  \<open>is_from_lead\<close> true, and it comes before the final \<^verbatim>\<open>user\<close> entry.
\<close>

theorem lead_message_sent_as_assistant:
  "map (\<lambda>c. (chat.role c, chat.content c))
     (tl (chatMessages ''Acme'' ''real estate'' ''brokerage'' ''friendly'' ''assistant'' ''Budget''
            [message_object \<lparr>message.id = ''m-1'', conversation_id = ''conv-1'',
                              content = ''Hello, I need an agent'', is_from_lead = True,
                              metadata = JObj [], created_at = 1704099600000\<rparr>]
            ''What do you charge?''))
     = [(''assistant'', Some (JStr ''Hello, I need an agent'')),
        (''user'', Some (JStr ''What do you charge?''))] \<and>
   map message.is_from_lead
     (messages (snd (processIncomingMessage example_env ''+15550100'' ''What do you charge?''
                       ''whatsapp'' example_world)))
     = [True, False] \<and>
   map (\<lambda>request. map (\<lambda>c. (chat.role c, chat.content c)) (tl request))
     (openai_requests (snd (processIncomingMessage example_env ''+15550100'' ''What do you charge?''
                              ''whatsapp'' example_world)))
     = [[(''assistant'', Some (JStr ''What do you charge?'')),
         (''user'', Some (JStr ''What do you charge?''))]]"
  by code_simp

lemma fold_analyse_filter:
  "fold (\<lambda>m q'. analyse field m q') (filter message.is_from_lead msgs) q =
   fold (\<lambda>m q'. analyse field m q') msgs q"
  by (induction msgs arbitrary: q) (simp_all add: analyse_def)

lemma scanMessages_lead_only:
  "scanMessages fieldNames (filter message.is_from_lead msgs) = scanMessages fieldNames msgs"
proof -
  have "\<And>q. fold (\<lambda>field q. fold (\<lambda>m q'. analyse field m q') (filter message.is_from_lead msgs) q) fieldNames q =
             fold (\<lambda>field q. fold (\<lambda>m q'. analyse field m q') msgs q) fieldNames q"
    by (simp add: fold_analyse_filter)
  then show ?thesis by (simp add: scanMessages_def)
qed

text \<open>
  What the extraction step does: it reads the conversation's messages oldest first and
  stops after the first hundred (the call of \<^verbatim>\<open>getMessagesByConversationId\<close> takes the
  paging defaults); what it extracts is the scan of the messages of the lead among these,
  so a message with \<open>is_from_lead\<close> false contributes nothing; and what it stores is the
  merge of that result, when the result is not empty.
\<close>

lemma extractQualificationData_first_hundred:
  "extractQualificationData lid cid info w =
     (Inr (),
      (let q = scanMessages (requiredFields info)
                 (filter message.is_from_lead (take 100 (conversationMessages w cid)))
       in if q = [] then w else snd (addLeadQualificationData lid (Some (JObj q)) w)))"
  by (simp add: extractQualificationData_def getMessagesByConversationId_def rowRange_def
        conversationMessages_def scanMessages_lead_only io_defs Let_def
        split: prod.splits sum.splits)

text \<open>
  Claim C9. In \<open>long_world\<close> the conversation has 101 messages and the last one, the only
  message of the lead, names a budget: a scan of the messages of the lead finds 5000, but
  the extraction step never reads the message, changes nothing, and the lead keeps the
  budget stored before. In \<open>hundred_world\<close>, the same conversation without its first
  message, the message of the lead is the hundredth and its budget is stored.
\<close>

theorem extraction_misses_late_message:
  "length (conversationMessages long_world ''conv-1'') = 101 \<and>
   map message.content (filter message.is_from_lead (conversationMessages long_world ''conv-1''))
     = [''Our budget is 5000''] \<and>
   scanMessages (requiredFields ''budget'')
      (filter message.is_from_lead (conversationMessages long_world ''conv-1''))
     = [(''budget'', JStr ''5000'')] \<and>
   extractQualificationData ''lead-1'' ''conv-1'' ''budget'' long_world = (Inr (), long_world) \<and>
   map (\<lambda>l. property (qualificationMap l) ''budget'') (leads long_world) = [Some (JStr ''4000'')] \<and>
   map (\<lambda>l. property (qualificationMap l) ''budget'')
     (leads (snd (extractQualificationData ''lead-1'' ''conv-1'' ''budget'' hundred_world)))
     = [Some (JStr ''5000'')]"
  by code_simp

section \<open>Properties of the booking route\<close>

text \<open>
  Claim C5. For a valid request of a user with a business, for a lead of that business,
  when calendar credentials exist and the free/busy query over the requested window
  reports a busy interval: the response is 409, no meeting is stored, and nothing in the
  world changes but the record of the query sent to the calendar.
\<close>

theorem booking_conflict:
  assumes "validationResult env body = []"
    and "filter (\<lambda>b. business.user_id b = userId) (businesses w) = [biz]"
    and "filter (\<lambda>x. lead.id x = meeting_body.leadId body) (leads w) = [l]"
    and "lead.business_id l = business.id biz"
    and "filter (\<lambda>c. calendar_integration.user_id c = userId \<and> calendar_integration.provider c = ''google'')
           (calendar_integrations w) = [credentials]"
    and "freebusy_query env (calendar_integration.refresh_token credentials)
           (meeting_body.startTime body) (meeting_body.endTime body) = Inr busySlots"
    and "busySlots \<noteq> []"
  shows "\<exists>w'. postMeetings env userId body w =
             (Json 409 (Message ''Selected time slot is no longer available''), w') \<and>
           meetings w' = meetings w \<and> leads w' = leads w \<and>
           w'\<lparr>calendar_requests := calendar_requests w\<rparr> = w \<and>
           calendar_requests w' = calendar_requests w @
             [FreebusyQuery (calendar_integration.refresh_token credentials)
                (meeting_body.startTime body) (meeting_body.endTime body)]"
  using assms
  by (simp add: postMeetings_def meetingsHandler_def getBusinessByUserId_def getLeadById_def
        getCalendarCredentials_def bookInCalendar_def checkAvailability_def io_defs)

theorem booking_conflict_witness:
  "\<exists>w'. postMeetings busy_env ''user-1'' example_body calendar_world =
           (Json 409 (Message ''Selected time slot is no longer available''), w') \<and>
         meetings w' = meetings calendar_world"
proof -
  have 1: "validationResult busy_env example_body = []" by code_simp
  have 2: "filter (\<lambda>b. business.user_id b = ''user-1'') (businesses calendar_world) =
             [\<lparr>business.id = ''biz-1'', user_id = ''user-1'', name = ''Acme'',
               industry = ''real estate'', services = ''brokerage''\<rparr>]" by code_simp
  have 3: "filter (\<lambda>x. lead.id x = meeting_body.leadId example_body) (leads calendar_world) = [example_lead]"
    by code_simp
  have 4: "lead.business_id example_lead =
             business.id \<lparr>business.id = ''biz-1'', user_id = ''user-1'', name = ''Acme'',
               industry = ''real estate'', services = ''brokerage''\<rparr>" by code_simp
  have 5: "filter (\<lambda>c. calendar_integration.user_id c = ''user-1'' \<and> calendar_integration.provider c = ''google'')
           (calendar_integrations calendar_world) =
             [\<lparr>user_id = ''user-1'', provider = ''google'', refresh_token = ''refresh-1''\<rparr>]" by code_simp
  have 6: "freebusy_query busy_env
             (calendar_integration.refresh_token \<lparr>user_id = ''user-1'', provider = ''google'', refresh_token = ''refresh-1''\<rparr>)
             (meeting_body.startTime example_body) (meeting_body.endTime example_body) =
             Inr [\<lparr>busy_start = 1704099600000, busy_end = 1704101400000\<rparr>]"
    by (simp add: busy_env_def)
  have 7: "[\<lparr>busy_start = 1704099600000, busy_end = 1704101400000\<rparr>] \<noteq> []" by simp
  from booking_conflict [OF 1 2 3 4 5 6 7] show ?thesis by blast
qed

text \<open>
  Claim C6. For a valid request of a user with a business, for a lead of that business,
  naming no conversation or a stored one. \<open>event\<close> is the event the request describes and
  \<open>row\<close> the meeting it describes, for a given event identifier: the fields of the
  request, the lead and the business, a fresh identifier, the status \<^verbatim>\<open>scheduled\<close>.
  With credentials and a free window: the calendar is asked to create exactly \<open>event\<close>;
  when it refuses, the error goes to the error handler, no meeting is stored and the
  store is as before; when it accepts, exactly \<open>row\<close> with the identifier of the created
  event is stored and returned, so the event was created first. Without credentials: the
  calendar is not called, and exactly \<open>row\<close> with no event identifier is stored and
  returned.
\<close>

theorem booking_order:
  assumes "validationResult env body = []"
    and "filter (\<lambda>b. business.user_id b = userId) (businesses w) = [biz]"
    and "filter (\<lambda>x. lead.id x = meeting_body.leadId body) (leads w) = [l]"
    and "lead.business_id l = business.id biz"
    and "case meeting_body.conversationId body of
           None \<Rightarrow> True
         | Some c \<Rightarrow> c \<in> conversation.id ` set (conversations w)"
    and "event =
           \<lparr>summary = meeting_body.title body,
            description = (case meeting_body.description body of None \<Rightarrow> [] | Some d \<Rightarrow> d),
            start_dateTime = meeting_body.startTime body,
            end_dateTime = meeting_body.endTime body,
            timeZone = meeting_body.timezone body,
            attendees = (case lead.email l of None \<Rightarrow> [] | Some a \<Rightarrow> if a = [] then [] else [a]),
            location = (case meeting_body.location body of
                          None \<Rightarrow> None | Some p \<Rightarrow> if p = [] then None else Some p)\<rparr>"
    and "row = (\<lambda>googleEventId.
           \<lparr>meeting.id = uuid env (uuids w),
            lead_id = meeting_body.leadId body,
            business_id = business.id biz,
            conversation_id = meeting_body.conversationId body,
            title = meeting_body.title body,
            description = meeting_body.description body,
            start_time = meeting_body.startTime body,
            end_time = meeting_body.endTime body,
            timezone = meeting_body.timezone body,
            status = ''scheduled'',
            location = meeting_body.location body,
            google_event_id = googleEventId,
            outlook_event_id = None,
            additional_info = JObj [],
            created_at = clock w\<rparr>)"
  shows "(\<forall>credentials e.
            filter (\<lambda>c. calendar_integration.user_id c = userId \<and> calendar_integration.provider c = ''google'')
              (calendar_integrations w) = [credentials] \<and>
            freebusy_query env (calendar_integration.refresh_token credentials)
              (meeting_body.startTime body) (meeting_body.endTime body) = Inr [] \<and>
            events_insert env (calendar_integration.refresh_token credentials) event = Inl e
          \<longrightarrow> (\<exists>w'. postMeetings env userId body w = (Next (Error ''Failed to create calendar event''), w') \<and>
                 meetings w' = meetings w \<and>
                 w'\<lparr>calendar_requests := calendar_requests w\<rparr> = w \<and>
                 calendar_requests w' = calendar_requests w @
                   [FreebusyQuery (calendar_integration.refresh_token credentials)
                      (meeting_body.startTime body) (meeting_body.endTime body),
                    EventsInsert (calendar_integration.refresh_token credentials) event])) \<and>
         (\<forall>credentials eventId.
            filter (\<lambda>c. calendar_integration.user_id c = userId \<and> calendar_integration.provider c = ''google'')
              (calendar_integrations w) = [credentials] \<and>
            freebusy_query env (calendar_integration.refresh_token credentials)
              (meeting_body.startTime body) (meeting_body.endTime body) = Inr [] \<and>
            events_insert env (calendar_integration.refresh_token credentials) event = Inr eventId
          \<longrightarrow> (\<exists>w'. postMeetings env userId body w = (Json 201 (MeetingCreated (row (Some eventId))), w') \<and>
                 meetings w' = meetings w @ [row (Some eventId)] \<and>
                 calendar_requests w' = calendar_requests w @
                   [FreebusyQuery (calendar_integration.refresh_token credentials)
                      (meeting_body.startTime body) (meeting_body.endTime body),
                    EventsInsert (calendar_integration.refresh_token credentials) event])) \<and>
         ((\<forall>credentials.
            filter (\<lambda>c. calendar_integration.user_id c = userId \<and> calendar_integration.provider c = ''google'')
              (calendar_integrations w) \<noteq> [credentials])
          \<longrightarrow> (\<exists>w'. postMeetings env userId body w = (Json 201 (MeetingCreated (row None)), w') \<and>
                 meetings w' = meetings w @ [row None] \<and>
                 calendar_requests w' = calendar_requests w))"
proof (intro conjI allI impI)
  fix credentials e
  assume "filter (\<lambda>c. calendar_integration.user_id c = userId \<and> calendar_integration.provider c = ''google'')
              (calendar_integrations w) = [credentials] \<and>
            freebusy_query env (calendar_integration.refresh_token credentials)
              (meeting_body.startTime body) (meeting_body.endTime body) = Inr [] \<and>
            events_insert env (calendar_integration.refresh_token credentials) event = Inl e"
  with assms(1-4,6) show "\<exists>w'. postMeetings env userId body w = (Next (Error ''Failed to create calendar event''), w') \<and>
                 meetings w' = meetings w \<and>
                 w'\<lparr>calendar_requests := calendar_requests w\<rparr> = w \<and>
                 calendar_requests w' = calendar_requests w @
                   [FreebusyQuery (calendar_integration.refresh_token credentials)
                      (meeting_body.startTime body) (meeting_body.endTime body),
                    EventsInsert (calendar_integration.refresh_token credentials) event]"
    by (simp add: postMeetings_def meetingsHandler_def getBusinessByUserId_def getLeadById_def
        getCalendarCredentials_def bookInCalendar_def checkAvailability_def
        calendarService_createMeeting_def calendarEvent_def io_defs Let_def)
next
  fix credentials eventId
  assume "filter (\<lambda>c. calendar_integration.user_id c = userId \<and> calendar_integration.provider c = ''google'')
              (calendar_integrations w) = [credentials] \<and>
            freebusy_query env (calendar_integration.refresh_token credentials)
              (meeting_body.startTime body) (meeting_body.endTime body) = Inr [] \<and>
            events_insert env (calendar_integration.refresh_token credentials) event = Inr eventId"
  with assms(1-4,6,7) show "\<exists>w'. postMeetings env userId body w = (Json 201 (MeetingCreated (row (Some eventId))), w') \<and>
                 meetings w' = meetings w @ [row (Some eventId)] \<and>
                 calendar_requests w' = calendar_requests w @
                   [FreebusyQuery (calendar_integration.refresh_token credentials)
                      (meeting_body.startTime body) (meeting_body.endTime body),
                    EventsInsert (calendar_integration.refresh_token credentials) event]"
    by (simp add: postMeetings_def meetingsHandler_def getBusinessByUserId_def getLeadById_def
        getCalendarCredentials_def bookInCalendar_def checkAvailability_def
        calendarService_createMeeting_def calendarEvent_def schedulingModel_createMeeting_def
        updateLeadStatus_def io_defs Let_def)
next
  assume none: "\<forall>credentials.
            filter (\<lambda>c. calendar_integration.user_id c = userId \<and> calendar_integration.provider c = ''google'')
              (calendar_integrations w) \<noteq> [credentials]"
  have "getCalendarCredentials userId ''google'' w = (Inr None, w)"
  proof (cases "filter (\<lambda>c. calendar_integration.user_id c = userId \<and> calendar_integration.provider c = ''google'')
              (calendar_integrations w)")
    case Nil
    then show ?thesis by (simp add: getCalendarCredentials_def io_defs)
  next
    case (Cons c cs)
    with none have "cs \<noteq> []" by auto
    then obtain d ds where "cs = d # ds" by (cases cs) auto
    with Cons show ?thesis by (simp add: getCalendarCredentials_def io_defs)
  qed
  with assms(1-4,7) show "\<exists>w'. postMeetings env userId body w = (Json 201 (MeetingCreated (row None)), w') \<and>
                 meetings w' = meetings w @ [row None] \<and>
                 calendar_requests w' = calendar_requests w"
    by (simp add: postMeetings_def meetingsHandler_def getBusinessByUserId_def getLeadById_def
        bookInCalendar_def schedulingModel_createMeeting_def
        updateLeadStatus_def io_defs Let_def)
qed

theorem booking_order_witness:
  "(\<exists>w'. postMeetings refusing_env ''user-1'' example_body calendar_world =
            (Next (Error ''Failed to create calendar event''), w') \<and>
          meetings w' = meetings calendar_world) \<and>
   (\<exists>m w'. postMeetings example_env ''user-1'' example_body calendar_world =
            (Json 201 (MeetingCreated m), w') \<and>
          meetings w' = meetings calendar_world @ [m] \<and>
          meeting.lead_id m = ''lead-1'' \<and> meeting.business_id m = ''biz-1'' \<and>
          meeting.title m = ''Intro call'' \<and>
          meeting.start_time m = ''2024-01-01T09:00:00Z'' \<and>
          meeting.end_time m = ''2024-01-01T09:30:00Z'' \<and>
          meeting.status m = ''scheduled'' \<and>
          meeting.google_event_id m = Some ''event-1'') \<and>
   (\<exists>m w'. postMeetings example_env ''user-1'' example_body example_world =
            (Json 201 (MeetingCreated m), w') \<and>
          meetings w' = meetings example_world @ [m] \<and>
          meeting.lead_id m = ''lead-1'' \<and> meeting.title m = ''Intro call'' \<and>
          meeting.google_event_id m = None \<and>
          calendar_requests w' = calendar_requests example_world)"
proof -
  let ?biz = "\<lparr>business.id = ''biz-1'', user_id = ''user-1'', name = ''Acme'',
               industry = ''real estate'', services = ''brokerage''\<rparr>"
  let ?cred = "\<lparr>user_id = ''user-1'', provider = ''google'', refresh_token = ''refresh-1''\<rparr>"
  let ?event = "\<lparr>summary = ''Intro call'', description = [],
            start_dateTime = ''2024-01-01T09:00:00Z'', end_dateTime = ''2024-01-01T09:30:00Z'',
            timeZone = ''UTC'', attendees = [''ada@example.com''], location = None\<rparr>"
  have v1: "validationResult refusing_env example_body = []" by code_simp
  have v2: "validationResult example_env example_body = []" by code_simp
  have b1: "filter (\<lambda>b. business.user_id b = ''user-1'') (businesses calendar_world) = [?biz]"
    by code_simp
  have b2: "filter (\<lambda>b. business.user_id b = ''user-1'') (businesses example_world) = [?biz]"
    by code_simp
  have l1: "filter (\<lambda>x. lead.id x = meeting_body.leadId example_body) (leads calendar_world) = [example_lead]"
    by code_simp
  have l2: "filter (\<lambda>x. lead.id x = meeting_body.leadId example_body) (leads example_world) = [example_lead]"
    by code_simp
  have o: "lead.business_id example_lead = business.id ?biz" by code_simp
  have k1: "case meeting_body.conversationId example_body of
              None \<Rightarrow> True | Some c \<Rightarrow> c \<in> conversation.id ` set (conversations calendar_world)"
    by (simp add: example_body_def)
  have k2: "case meeting_body.conversationId example_body of
              None \<Rightarrow> True | Some c \<Rightarrow> c \<in> conversation.id ` set (conversations example_world)"
    by (simp add: example_body_def)
  have c1: "filter (\<lambda>c. calendar_integration.user_id c = ''user-1'' \<and> calendar_integration.provider c = ''google'')
              (calendar_integrations calendar_world) = [?cred]" by code_simp
  have c2: "\<forall>credentials. filter (\<lambda>c. calendar_integration.user_id c = ''user-1'' \<and> calendar_integration.provider c = ''google'')
              (calendar_integrations example_world) \<noteq> [credentials]"
    by (simp add: example_world_def)
  have f1: "freebusy_query refusing_env (calendar_integration.refresh_token ?cred)
              (meeting_body.startTime example_body) (meeting_body.endTime example_body) = Inr []"
    by (simp add: refusing_env_def example_env_def)
  have f2: "freebusy_query example_env (calendar_integration.refresh_token ?cred)
              (meeting_body.startTime example_body) (meeting_body.endTime example_body) = Inr []"
    by (simp add: example_env_def)
  have ev: "\<lparr>summary = meeting_body.title example_body,
            description = (case meeting_body.description example_body of None \<Rightarrow> [] | Some d \<Rightarrow> d),
            start_dateTime = meeting_body.startTime example_body,
            end_dateTime = meeting_body.endTime example_body,
            timeZone = meeting_body.timezone example_body,
            attendees = (case lead.email example_lead of None \<Rightarrow> [] | Some a \<Rightarrow> if a = [] then [] else [a]),
            location = (case meeting_body.location example_body of
                          None \<Rightarrow> None | Some p \<Rightarrow> if p = [] then None else Some p)\<rparr> = ?event"
    by (simp add: example_body_def example_lead_def)
  have i1: "events_insert refusing_env (calendar_integration.refresh_token ?cred) ?event = Inl (Error ''Forbidden'')"
    by (simp add: refusing_env_def example_env_def)
  have i2: "events_insert example_env (calendar_integration.refresh_token ?cred) ?event = Inr ''event-1''"
    by (simp add: example_env_def)
  from booking_order [OF v1 b1 l1 o k1 ev [symmetric] refl] c1 f1 i1
  have p1: "\<exists>w'. postMeetings refusing_env ''user-1'' example_body calendar_world =
            (Next (Error ''Failed to create calendar event''), w') \<and>
          meetings w' = meetings calendar_world"
    by blast
  from booking_order [OF v2 b1 l1 o k1 ev [symmetric] refl] c1 f2 i2
  obtain w' where "postMeetings example_env ''user-1'' example_body calendar_world =
            (Json 201 (MeetingCreated
              \<lparr>meeting.id = uuid example_env (uuids calendar_world),
               lead_id = meeting_body.leadId example_body,
               business_id = business.id ?biz,
               conversation_id = meeting_body.conversationId example_body,
               title = meeting_body.title example_body,
               description = meeting_body.description example_body,
               start_time = meeting_body.startTime example_body,
               end_time = meeting_body.endTime example_body,
               timezone = meeting_body.timezone example_body,
               status = ''scheduled'',
               location = meeting_body.location example_body,
               google_event_id = Some ''event-1'',
               outlook_event_id = None,
               additional_info = JObj [],
               created_at = clock calendar_world\<rparr>), w')"
    and "meetings w' = meetings calendar_world @
              [\<lparr>meeting.id = uuid example_env (uuids calendar_world),
               lead_id = meeting_body.leadId example_body,
               business_id = business.id ?biz,
               conversation_id = meeting_body.conversationId example_body,
               title = meeting_body.title example_body,
               description = meeting_body.description example_body,
               start_time = meeting_body.startTime example_body,
               end_time = meeting_body.endTime example_body,
               timezone = meeting_body.timezone example_body,
               status = ''scheduled'',
               location = meeting_body.location example_body,
               google_event_id = Some ''event-1'',
               outlook_event_id = None,
               additional_info = JObj [],
               created_at = clock calendar_world\<rparr>]"
    by blast
  then have p2: "\<exists>m w'. postMeetings example_env ''user-1'' example_body calendar_world =
            (Json 201 (MeetingCreated m), w') \<and>
          meetings w' = meetings calendar_world @ [m] \<and>
          meeting.lead_id m = ''lead-1'' \<and> meeting.business_id m = ''biz-1'' \<and>
          meeting.title m = ''Intro call'' \<and>
          meeting.start_time m = ''2024-01-01T09:00:00Z'' \<and>
          meeting.end_time m = ''2024-01-01T09:30:00Z'' \<and>
          meeting.status m = ''scheduled'' \<and>
          meeting.google_event_id m = Some ''event-1''"
    by (simp add: example_body_def)
  from booking_order [OF v2 b2 l2 o k2 ev [symmetric] refl] c2
  obtain w' where "postMeetings example_env ''user-1'' example_body example_world =
            (Json 201 (MeetingCreated
              \<lparr>meeting.id = uuid example_env (uuids example_world),
               lead_id = meeting_body.leadId example_body,
               business_id = business.id ?biz,
               conversation_id = meeting_body.conversationId example_body,
               title = meeting_body.title example_body,
               description = meeting_body.description example_body,
               start_time = meeting_body.startTime example_body,
               end_time = meeting_body.endTime example_body,
               timezone = meeting_body.timezone example_body,
               status = ''scheduled'',
               location = meeting_body.location example_body,
               google_event_id = None,
               outlook_event_id = None,
               additional_info = JObj [],
               created_at = clock example_world\<rparr>), w')"
    and "meetings w' = meetings example_world @
              [\<lparr>meeting.id = uuid example_env (uuids example_world),
               lead_id = meeting_body.leadId example_body,
               business_id = business.id ?biz,
               conversation_id = meeting_body.conversationId example_body,
               title = meeting_body.title example_body,
               description = meeting_body.description example_body,
               start_time = meeting_body.startTime example_body,
               end_time = meeting_body.endTime example_body,
               timezone = meeting_body.timezone example_body,
               status = ''scheduled'',
               location = meeting_body.location example_body,
               google_event_id = None,
               outlook_event_id = None,
               additional_info = JObj [],
               created_at = clock example_world\<rparr>]"
    and "calendar_requests w' = calendar_requests example_world"
    by blast
  then have p3: "\<exists>m w'. postMeetings example_env ''user-1'' example_body example_world =
            (Json 201 (MeetingCreated m), w') \<and>
          meetings w' = meetings example_world @ [m] \<and>
          meeting.lead_id m = ''lead-1'' \<and> meeting.title m = ''Intro call'' \<and>
          meeting.google_event_id m = None \<and>
          calendar_requests w' = calendar_requests example_world"
    by (simp add: example_body_def)
  from p1 p2 p3 show ?thesis by blast
qed

end
